theory Spec2Isabelle
  imports Complex_Main "HOL-Library.Word"
begin

section \<open>JavaScript strings and numbers\<close>

text \<open>
  A JavaScript string is a sequence of UTF-16 code units; \<open>length\<close> and \<open>slice\<close> count
  code units. String literals of the source that are plain ASCII are written with \<open>lit\<close>;
  other characters are given by their code unit.
\<close>

type_synonym jsstring = "16 word list"

definition lit :: "string \<Rightarrow> jsstring" where
  "lit s = map of_char s"

text \<open>
  \<open>String(n)\<close> and \<open>`${n}`\<close> for a number. The source's numbers are doubles; the model
  takes the integers among them (every number the repository passes is one), for which
  the conversion gives the decimal digits, with a leading minus sign below zero.
\<close>

fun digits :: "nat \<Rightarrow> jsstring" where
  "digits n = (if n < 10 then [48 + of_nat n] else digits (n div 10) @ [48 + of_nat (n mod 10)])"

declare digits.simps [simp del]

definition String_num :: "int \<Rightarrow> jsstring" where
  "String_num n = (if n < 0 then lit ''-'' @ digits (nat (- n)) else digits (nat n))"

definition String_bool :: "bool \<Rightarrow> jsstring" where
  "String_bool b = (if b then lit ''true'' else lit ''false'')"

section \<open>services/apiClient.ts: errors, the network, fetchJson and postJson\<close>

text \<open>
  Values that the client throws. \<open>ApiError\<close> is the class of the source: a message and
  the two optional fields \<open>statusCode\<close> and \<open>endpoint\<close>. \<open>Error\<close> is any other
  instance of the platform's \<open>Error\<close>, with its \<open>name\<close> and its message: \<open>fetch\<close>
  rejects with a \<open>TypeError\<close> or with the \<open>AbortError\<close> of the cancellation signal, and
  \<open>response.json()\<close> with a \<open>SyntaxError\<close>.
\<close>

datatype js_error =
    ApiError jsstring "int option" "jsstring option"
  | Error jsstring jsstring

fun message :: "js_error \<Rightarrow> jsstring" where
  "message (ApiError m sc ep) = m"
| "message (Error nm m) = m"

fun name :: "js_error \<Rightarrow> jsstring" where
  "name (ApiError m sc ep) = lit ''ApiError''"
| "name (Error nm m) = nm"

fun statusCode :: "js_error \<Rightarrow> int option" where
  "statusCode (ApiError m sc ep) = sc"
| "statusCode (Error nm m) = None"

fun endpoint :: "js_error \<Rightarrow> jsstring option" where
  "endpoint (ApiError m sc ep) = ep"
| "endpoint (Error nm m) = None"

datatype http_method = GET | POST

text \<open>
  The request handed to \<open>fetch\<close>. The body is kept as the value that
  \<open>JSON.stringify\<close> serialises.
\<close>

record 'b request =
  req_method :: http_method
  req_url :: jsstring
  req_headers :: "(jsstring \<times> jsstring) list"
  req_body :: "'b option"

text \<open>
  What the client reads of a response: \<open>status\<close>, \<open>statusText\<close>, and how
  \<open>response.json()\<close> settles: \<open>Inr\<close> the parsed value, or \<open>Inl\<close> the message of the
  \<open>SyntaxError\<close> when the body is not JSON. \<open>response.ok\<close> is the platform's: the
  status is in the range 200 to 299.
\<close>

record 'a response =
  status :: int
  statusText :: jsstring
  json :: "jsstring + 'a"

definition ok :: "'a response \<Rightarrow> bool" where
  "ok r = (200 \<le> status r \<and> status r \<le> 299)"

text \<open>
  One call of \<open>fetch\<close> settles with a response or rejects with an \<open>Error\<close> (name and
  message). The network is the environment: \<open>net req k\<close> is how the request \<open>req\<close>
  settles when it is the \<open>k\<close>-th attempt (from 0) of a call. The cancellation signal
  tripping is the rejection named \<open>AbortError\<close>.
\<close>

datatype 'a fetch_result = Resolves "'a response" | Rejects jsstring jsstring

type_synonym ('b, 'a) network = "'b request \<Rightarrow> nat \<Rightarrow> 'a fetch_result"

text \<open>
  The effects of a call, in order: arming the timer that aborts the attempt
  (\<open>setTimeout(() => controller.abort(), ms)\<close>), the request sent, the warning logged
  before a retry (its fields \<open>url\<close>, \<open>retriesLeft\<close>, \<open>delay\<close>), and the wait before the
  retry (\<open>setTimeout(res, delay)\<close>). Delays are rationals, since \<open>Math.pow(2, k)\<close> is a
  fraction for negative \<open>k\<close>. This trace has no times and leaves out the \<open>clearTimeout\<close>
  of the \<open>finally\<close> block; both are in the model on a clock further down.
\<close>

datatype 'b event =
    SetAbortTimer nat
  | Fetch "'b request"
  | Warn jsstring int rat
  | Sleep rat

fun is_Fetch :: "'b event \<Rightarrow> bool" where
  "is_Fetch (Fetch r) = True"
| "is_Fetch e = False"

definition attempts :: "'b event list \<Rightarrow> nat" where
  "attempts tr = length (filter is_Fetch tr)"

fun delays :: "'b event list \<Rightarrow> rat list" where
  "delays [] = []"
| "delays (Sleep d # es) = d # delays es"
| "delays (e # es) = delays es"

definition rate_limit_message :: jsstring where
  "rate_limit_message = lit ''Rate limit reached '' @ [0x2013] @ lit '' please try again shortly''"

definition timeout_message :: "jsstring \<Rightarrow> jsstring" where
  "timeout_message url = lit ''Timeout after 10s for '' @ url"

text \<open>
  The \<open>catch\<close> block of both functions: an \<open>Error\<close> named \<open>AbortError\<close> becomes the
  timeout \<open>ApiError\<close> with status code 0; anything else is thrown again.
\<close>

definition catch_block :: "jsstring \<Rightarrow> js_error \<Rightarrow> js_error" where
  "catch_block url err =
     (if name err = lit ''AbortError''
      then ApiError (timeout_message url) (Some 0) (Some url)
      else err)"

definition get_request :: "jsstring \<Rightarrow> 'b request" where
  "get_request url =
     \<lparr>req_method = GET, req_url = url,
      req_headers = [(lit ''accept'', lit ''application/json'')],
      req_body = None\<rparr>"

definition post_request :: "jsstring \<Rightarrow> 'b \<Rightarrow> 'b request" where
  "post_request url body =
     \<lparr>req_method = POST, req_url = url,
      req_headers = [(lit ''Content-Type'', lit ''application/json''),
                     (lit ''accept'', lit ''application/json'')],
      req_body = Some body\<rparr>"

text \<open>
  \<open>fetchJson(url, retries)\<close>, with the index \<open>k\<close> of the attempt in the call chain
  (0 for the call from outside). The result is what the promise settles with, and the
  trace of effects. \<open>retries\<close> is an integer. The errors thrown inside \<open>try\<close> pass
  through the \<open>catch\<close> block; the promises returned without \<open>await\<close> (the recursive
  call and \<open>response.json()\<close>) do not.
\<close>

function fetchJson :: "('b, 'a) network \<Rightarrow> nat \<Rightarrow> jsstring \<Rightarrow> int \<Rightarrow> (js_error + 'a) \<times> 'b event list" where
  "fetchJson net k url retries =
     (case net (get_request url) k of
        Rejects nm msg \<Rightarrow>
          (Inl (catch_block url (Error nm msg)),
           [SetAbortTimer 10000, Fetch (get_request url)])
      | Resolves response \<Rightarrow>
          if status response = 429 then
            (Inl (catch_block url (ApiError rate_limit_message (Some 429) (Some url))),
             [SetAbortTimer 10000, Fetch (get_request url)])
          else if status response \<ge> 500 \<and> retries > 0 then
            (case fetchJson net (Suc k) url (retries - 1) of
               (res, tr) \<Rightarrow>
                 (res,
                  [SetAbortTimer 10000, Fetch (get_request url),
                   Warn url (retries - 1) (of_int ((4 - retries) * 1000)),
                   Sleep (of_int ((4 - retries) * 1000))] @ tr))
          else if \<not> ok response then
            (Inl (catch_block url
                    (ApiError (lit ''API request failed: '' @ String_num (status response)
                                 @ lit '' '' @ statusText response)
                       (Some (status response)) (Some url))),
             [SetAbortTimer 10000, Fetch (get_request url)])
          else
            (case json response of
               Inl msg \<Rightarrow> (Inl (Error (lit ''SyntaxError'') msg),
                          [SetAbortTimer 10000, Fetch (get_request url)])
             | Inr v \<Rightarrow> (Inr v, [SetAbortTimer 10000, Fetch (get_request url)])))"
  by pat_completeness auto
termination
  by (relation "measure (\<lambda>(net, k, url, retries). nat retries)") auto

declare fetchJson.simps [simp del]

text \<open>\<open>Math.pow(2, k)\<close> for an integer \<open>k\<close>.\<close>

definition Math_pow2 :: "int \<Rightarrow> rat" where
  "Math_pow2 k = (if k \<ge> 0 then 2 ^ nat k else 1 / 2 ^ nat (- k))"

function postJson :: "('b, 'a) network \<Rightarrow> nat \<Rightarrow> jsstring \<Rightarrow> 'b \<Rightarrow> int \<Rightarrow> (js_error + 'a) \<times> 'b event list" where
  "postJson net k url body retries =
     (case net (post_request url body) k of
        Rejects nm msg \<Rightarrow>
          (Inl (catch_block url (Error nm msg)),
           [SetAbortTimer 10000, Fetch (post_request url body)])
      | Resolves response \<Rightarrow>
          if status response = 429 then
            (Inl (catch_block url (ApiError rate_limit_message (Some 429) (Some url))),
             [SetAbortTimer 10000, Fetch (post_request url body)])
          else if status response \<ge> 500 \<and> retries > 0 then
            (case postJson net (Suc k) url body (retries - 1) of
               (res, tr) \<Rightarrow>
                 (res,
                  [SetAbortTimer 10000, Fetch (post_request url body),
                   Warn url (retries - 1) (Math_pow2 (3 - retries) * 1000),
                   Sleep (Math_pow2 (3 - retries) * 1000)] @ tr))
          else if \<not> ok response then
            (Inl (catch_block url
                    (ApiError (lit ''POST API request failed: '' @ String_num (status response)
                                 @ lit '' '' @ statusText response)
                       (Some (status response)) (Some url))),
             [SetAbortTimer 10000, Fetch (post_request url body)])
          else
            (case json response of
               Inl msg \<Rightarrow> (Inl (Error (lit ''SyntaxError'') msg),
                          [SetAbortTimer 10000, Fetch (post_request url body)])
             | Inr v \<Rightarrow> (Inr v, [SetAbortTimer 10000, Fetch (post_request url body)])))"
  by pat_completeness auto
termination
  by (relation "measure (\<lambda>(net, k, url, body, retries). nat retries)") auto

declare postJson.simps [simp del]

text \<open>
  The exported wrappers call \<open>fetchJson\<close> and \<open>postJson\<close> with the default
  \<open>retries = 3\<close>.
\<close>

definition taxonomyFetch :: "('b, 'a) network \<Rightarrow> jsstring \<Rightarrow> (js_error + 'a) \<times> 'b event list" where
  "taxonomyFetch net url = fetchJson net 0 url 3"

definition enrichmentPost :: "('b, 'a) network \<Rightarrow> jsstring \<Rightarrow> 'b \<Rightarrow> (js_error + 'a) \<times> 'b event list" where
  "enrichmentPost net url body = postJson net 0 url body 3"

text \<open>The network answers every attempt of a request with a status of 500 or more.\<close>

definition always_5xx :: "('b, 'a) network \<Rightarrow> 'b request \<Rightarrow> bool" where
  "always_5xx net req = (\<forall>k. \<exists>r. net req k = Resolves r \<and> 500 \<le> status r)"

section \<open>services/apiClient.ts: fetchJson on a clock\<close>

text \<open>
  The same function with the time written out, in milliseconds on an ideal clock. An
  exchange is what the upstream does with one request when nothing aborts it:
  \<open>Answers h r b\<close> sends the status line and headers of the response \<open>r\<close> after \<open>h\<close> ms
  and completes the body \<open>b\<close> ms after that; \<open>Breaks h nm msg\<close> makes \<open>fetch\<close> reject
  after \<open>h\<close> ms with an \<open>Error\<close> of that name and message; \<open>Silent\<close> never answers.
\<close>

datatype 'a exchange =
    Answers nat "'a response" nat
  | Breaks nat jsstring jsstring
  | Silent

type_synonym ('b, 'a) timed_network = "'b request \<Rightarrow> nat \<Rightarrow> 'a exchange"

text \<open>
  \<open>fetch(url, {signal})\<close> with the timer \<open>setTimeout(() => controller.abort(), ms)\<close>
  armed at the same moment: the promise of \<open>fetch\<close> resolves with the response once the
  headers are there, or rejects; when neither has happened \<open>ms\<close> milliseconds on, the
  signal aborts the request and the promise rejects with the \<open>AbortError\<close>. The result
  says when the promise settles, counted from the request.
\<close>

datatype 'a settled = Responds nat "'a response" nat | Throws nat jsstring jsstring

definition abort_message :: jsstring where
  "abort_message = lit ''This operation was aborted''"

definition fetch_under_signal :: "nat \<Rightarrow> 'a exchange \<Rightarrow> 'a settled" where
  "fetch_under_signal ms x =
     (case x of
        Answers h r b \<Rightarrow>
          if h < ms then Responds h r b else Throws ms (lit ''AbortError'') abort_message
      | Breaks h nm msg \<Rightarrow>
          if h < ms then Throws h nm msg else Throws ms (lit ''AbortError'') abort_message
      | Silent \<Rightarrow> Throws ms (lit ''AbortError'') abort_message)"

text \<open>
  How long \<open>setTimeout(res, delay)\<close> waits on the platform of the repository (Node.js): a
  delay below 1 or above 2147483647 is set to 1, and a fraction is cut off.
\<close>

definition timer_wait :: "rat \<Rightarrow> nat" where
  "timer_wait d = (if d < 1 \<or> 2147483647 < d then 1 else nat \<lfloor>d\<rfloor>)"

text \<open>
  A step of the timed trace is an effect of the untimed trace or the \<open>clearTimeout\<close> of
  the \<open>finally\<close> block; each step carries the time at which it happens.
\<close>

datatype 'b step = Effect "'b event" | ClearAbortTimer

fun effects :: "(nat \<times> 'b step) list \<Rightarrow> 'b event list" where
  "effects [] = []"
| "effects ((t, Effect e) # xs) = e # effects xs"
| "effects ((t, ClearAbortTimer) # xs) = effects xs"

text \<open>
  \<open>fetchJson\<close> called at time \<open>t\<close>: what its promise settles with, when it settles, and the
  timed trace. The \<open>finally\<close> block runs when the \<open>try\<close> block is left: at a \<open>throw\<close>; at
  \<open>return response.json()\<close>, which is not awaited, so the timer is cleared when the
  headers are there and the promise settles when the body is read; and at
  \<open>return fetchJson(...)\<close>, after the wait and after the inner call has armed its own timer
  and sent its request (the first two steps of its trace). A timer that comes due during
  that wait calls \<open>controller.abort()\<close> for a request whose promise has settled, which
  changes nothing that the function awaits; the trace does not record it.
\<close>

function fetchJson_timed ::
  "('b, 'a) timed_network \<Rightarrow> nat \<Rightarrow> nat \<Rightarrow> jsstring \<Rightarrow> int
    \<Rightarrow> (js_error + 'a) \<times> nat \<times> (nat \<times> 'b step) list" where
  "fetchJson_timed net t k url retries =
     (case fetch_under_signal 10000 (net (get_request url) k) of
        Throws h nm msg \<Rightarrow>
          (Inl (catch_block url (Error nm msg)), t + h,
           [(t, Effect (SetAbortTimer 10000)), (t, Effect (Fetch (get_request url))),
            (t + h, ClearAbortTimer)])
      | Responds h response b \<Rightarrow>
          if status response = 429 then
            (Inl (catch_block url (ApiError rate_limit_message (Some 429) (Some url))), t + h,
             [(t, Effect (SetAbortTimer 10000)), (t, Effect (Fetch (get_request url))),
              (t + h, ClearAbortTimer)])
          else if status response \<ge> 500 \<and> retries > 0 then
            (case fetchJson_timed net (t + h + timer_wait (of_int ((4 - retries) * 1000)))
                    (Suc k) url (retries - 1) of
               (res, settled_at, tr) \<Rightarrow>
                 (res, settled_at,
                  [(t, Effect (SetAbortTimer 10000)), (t, Effect (Fetch (get_request url))),
                   (t + h, Effect (Warn url (retries - 1) (of_int ((4 - retries) * 1000)))),
                   (t + h, Effect (Sleep (of_int ((4 - retries) * 1000))))]
                  @ take 2 tr
                  @ [(t + h + timer_wait (of_int ((4 - retries) * 1000)), ClearAbortTimer)]
                  @ drop 2 tr))
          else if \<not> ok response then
            (Inl (catch_block url
                    (ApiError (lit ''API request failed: '' @ String_num (status response)
                                 @ lit '' '' @ statusText response)
                       (Some (status response)) (Some url))), t + h,
             [(t, Effect (SetAbortTimer 10000)), (t, Effect (Fetch (get_request url))),
              (t + h, ClearAbortTimer)])
          else
            (case json response of
               Inl msg \<Rightarrow>
                 (Inl (Error (lit ''SyntaxError'') msg), t + h + b,
                  [(t, Effect (SetAbortTimer 10000)), (t, Effect (Fetch (get_request url))),
                   (t + h, ClearAbortTimer)])
             | Inr v \<Rightarrow>
                 (Inr v, t + h + b,
                  [(t, Effect (SetAbortTimer 10000)), (t, Effect (Fetch (get_request url))),
                   (t + h, ClearAbortTimer)])))"
  by pat_completeness auto
termination
  by (relation "measure (\<lambda>(net, t, k, url, retries). nat retries)") auto

declare fetchJson_timed.simps [simp del]

text \<open>The network of the untimed model that a timed network gives under the signal.\<close>

definition untimed :: "('b, 'a) timed_network \<Rightarrow> ('b, 'a) network" where
  "untimed net req k =
     (case fetch_under_signal 10000 (net req k) of
        Responds h r b \<Rightarrow> Resolves r
      | Throws h nm msg \<Rightarrow> Rejects nm msg)"

section \<open>The platform's URL and URLSearchParams\<close>

text \<open>
  \<open>buildUrl\<close> uses the platform's \<open>URL\<close> class. Of a parsed URL the model keeps the
  serialisation of everything before the query (\<open>url_head\<close>), the query string and the
  fragment (absent or present), and the list of name-value pairs behind
  \<open>url.searchParams\<close>. The operations follow the URL Standard.
\<close>

record url =
  url_head :: jsstring
  url_query :: "jsstring option"
  url_fragment :: "jsstring option"
  searchParams :: "(jsstring \<times> jsstring) list"

text \<open>
  The string as scalar values: a surrogate pair is one code point, a lone surrogate
  becomes U+FFFD.
\<close>

definition high_surrogate :: "16 word \<Rightarrow> bool" where
  "high_surrogate c = (0xD800 \<le> c \<and> c \<le> 0xDBFF)"

definition low_surrogate :: "16 word \<Rightarrow> bool" where
  "low_surrogate c = (0xDC00 \<le> c \<and> c \<le> 0xDFFF)"

fun code_points :: "jsstring \<Rightarrow> nat list" where
  "code_points [] = []"
| "code_points [c] = [if high_surrogate c \<or> low_surrogate c then 0xFFFD else unat c]"
| "code_points (c # d # cs) =
     (if high_surrogate c \<and> low_surrogate d
      then (0x10000 + (unat c - 0xD800) * 0x400 + (unat d - 0xDC00)) # code_points cs
      else if high_surrogate c \<or> low_surrogate c then 0xFFFD # code_points (d # cs)
      else unat c # code_points (d # cs))"

definition utf8 :: "nat \<Rightarrow> nat list" where
  "utf8 n =
     (if n < 0x80 then [n]
      else if n < 0x800 then [0xC0 + n div 64, 0x80 + n mod 64]
      else if n < 0x10000 then [0xE0 + n div 4096, 0x80 + (n div 64) mod 64, 0x80 + n mod 64]
      else [0xF0 + n div 262144, 0x80 + (n div 4096) mod 64, 0x80 + (n div 64) mod 64,
            0x80 + n mod 64])"

definition hex_digit :: "nat \<Rightarrow> 16 word" where
  "hex_digit d = (if d < 10 then 48 + of_nat d else 55 + of_nat d)"

text \<open>
  The application/x-www-form-urlencoded byte serialiser: ASCII letters and digits and
  \<open>*\<close>, \<open>-\<close>, \<open>.\<close>, \<open>_\<close> stay, a space becomes \<open>+\<close>, every other byte is \<open>%\<close> and
  two upper-case hexadecimal digits.
\<close>

definition unreserved :: "nat \<Rightarrow> bool" where
  "unreserved b = ((48 \<le> b \<and> b \<le> 57) \<or> (65 \<le> b \<and> b \<le> 90) \<or> (97 \<le> b \<and> b \<le> 122)
      \<or> b = 42 \<or> b = 45 \<or> b = 46 \<or> b = 95)"

definition encode_byte :: "nat \<Rightarrow> jsstring" where
  "encode_byte b =
     (if unreserved b then [of_nat b]
      else if b = 32 then [43]
      else [37, hex_digit (b div 16), hex_digit (b mod 16)])"

definition urlencode :: "jsstring \<Rightarrow> jsstring" where
  "urlencode s = concat (map encode_byte (concat (map utf8 (code_points s))))"

fun serialize :: "(jsstring \<times> jsstring) list \<Rightarrow> jsstring" where
  "serialize [] = []"
| "serialize [(k, v)] = urlencode k @ [61] @ urlencode v"
| "serialize ((k, v) # p # ps) = urlencode k @ [61] @ urlencode v @ [38] @ serialize (p # ps)"

text \<open>
  After every change of the list the URL's query is set to the serialisation of the
  list, and to absent when that is the empty string.
\<close>

definition update :: "(jsstring \<times> jsstring) list \<Rightarrow> url \<Rightarrow> url" where
  "update ps u =
     u\<lparr>searchParams := ps,
       url_query := (if serialize ps = [] then None else Some (serialize ps))\<rparr>"

definition append_param :: "jsstring \<Rightarrow> jsstring \<Rightarrow> url \<Rightarrow> url" where
  "append_param k v u = update (searchParams u @ [(k, v)]) u"

text \<open>
  \<open>set\<close>: with the name present, the first pair of that name takes the value and the
  other pairs of that name are removed; otherwise the pair is appended.
\<close>

fun set_first :: "jsstring \<Rightarrow> jsstring \<Rightarrow> (jsstring \<times> jsstring) list \<Rightarrow> (jsstring \<times> jsstring) list" where
  "set_first k v [] = []"
| "set_first k v ((k', v') # ps) =
     (if k' = k then (k, v) # filter (\<lambda>p. fst p \<noteq> k) ps else (k', v') # set_first k v ps)"

definition set_param :: "jsstring \<Rightarrow> jsstring \<Rightarrow> url \<Rightarrow> url" where
  "set_param k v u =
     (if k \<in> fst ` set (searchParams u)
      then update (set_first k v (searchParams u)) u
      else update (searchParams u @ [(k, v)]) u)"

definition toString :: "url \<Rightarrow> jsstring" where
  "toString u =
     url_head u
     @ (case url_query u of None \<Rightarrow> [] | Some q \<Rightarrow> 63 # q)
     @ (case url_fragment u of None \<Rightarrow> [] | Some f \<Rightarrow> 35 # f)"

text \<open>
  \<open>new URL(s)\<close>, with no base URL. The parser first drops leading control characters and
  spaces; a string that then does not begin with an ASCII letter has no scheme, and the
  constructor throws a \<open>TypeError\<close>. The rest of the parser is the parameter
  \<open>parser\<close>: \<open>None\<close> where it fails, and the parsed URL otherwise.
\<close>

definition ascii_alpha :: "16 word \<Rightarrow> bool" where
  "ascii_alpha c = ((65 \<le> c \<and> c \<le> 90) \<or> (97 \<le> c \<and> c \<le> 122))"

definition scheme_start :: "jsstring \<Rightarrow> bool" where
  "scheme_start s = (case dropWhile (\<lambda>c. c \<le> 32) s of [] \<Rightarrow> False | c # cs \<Rightarrow> ascii_alpha c)"

definition invalid_url :: js_error where
  "invalid_url = Error (lit ''TypeError'') (lit ''Invalid URL'')"

definition newURL :: "(jsstring \<Rightarrow> url option) \<Rightarrow> jsstring \<Rightarrow> js_error + url" where
  "newURL parser s =
     (if \<not> scheme_start s then Inl invalid_url
      else case parser s of None \<Rightarrow> Inl invalid_url | Some u \<Rightarrow> Inr u)"

section \<open>services/apiClient.ts: buildUrl\<close>

text \<open>
  A value of \<open>Params\<close>: \<open>string | number | boolean | string[] | undefined\<close>. The
  parameter mapping is given by its entries in the order of \<open>Object.entries\<close>.
\<close>

datatype param_value = Str jsstring | Num int | Bool bool | Arr "jsstring list" | Undefined

fun String_scalar :: "param_value \<Rightarrow> jsstring" where
  "String_scalar (Str s) = s"
| "String_scalar (Num n) = String_num n"
| "String_scalar (Bool b) = String_bool b"
| "String_scalar (Arr vs) = concat (map (\<lambda>v. v @ lit '','') (butlast vs)) @ (if vs = [] then [] else last vs)"
| "String_scalar Undefined = lit ''undefined''"

text \<open>The body of the loop over the entries.\<close>

fun add_entry :: "jsstring \<times> param_value \<Rightarrow> url \<Rightarrow> url" where
  "add_entry (key, Undefined) u = u"
| "add_entry (key, Arr vs) u = fold (\<lambda>v. append_param key v) vs u"
| "add_entry (key, value) u = set_param key (String_scalar value) u"

definition buildUrl :: "(jsstring \<Rightarrow> url option) \<Rightarrow> jsstring \<Rightarrow> jsstring \<Rightarrow> (jsstring \<times> param_value) list \<Rightarrow> js_error + jsstring" where
  "buildUrl parser base path params =
     (case newURL parser (base @ path) of
        Inl err \<Rightarrow> Inl err
      | Inr u \<Rightarrow> Inr (toString (fold add_entry params u)))"

definition TAXONOMY_BASE_URL :: jsstring where
  "TAXONOMY_BASE_URL = lit ''https://taxonomy.api.jobtechdev.se''"

definition buildTaxonomyUrl :: "(jsstring \<Rightarrow> url option) \<Rightarrow> jsstring \<Rightarrow> (jsstring \<times> param_value) list \<Rightarrow> js_error + jsstring" where
  "buildTaxonomyUrl parser path params = buildUrl parser TAXONOMY_BASE_URL path params"

text \<open>
  The name-value pairs that the specification asks for: nothing for an absent value, one
  pair for a scalar, one pair per element for a sequence.
\<close>

fun pairs_of :: "jsstring \<times> param_value \<Rightarrow> (jsstring \<times> jsstring) list" where
  "pairs_of (key, Undefined) = []"
| "pairs_of (key, Arr vs) = map (\<lambda>v. (key, v)) vs"
| "pairs_of (key, value) = [(key, String_scalar value)]"

definition expected_pairs :: "(jsstring \<times> param_value) list \<Rightarrow> (jsstring \<times> jsstring) list" where
  "expected_pairs params = concat (map pairs_of params)"

section \<open>services/formatters.ts and constants.ts: the character budget\<close>

definition CHARACTER_LIMIT :: nat where
  "CHARACTER_LIMIT = 50000"

definition truncation_marker :: jsstring where
  "truncation_marker = [10] @ lit ''...[trunkerat pga l'' @ [0xE4] @ lit ''ngd]''"

definition truncateIfNeeded :: "jsstring \<Rightarrow> jsstring" where
  "truncateIfNeeded text =
     (if length text > CHARACTER_LIMIT
      then take CHARACTER_LIMIT text @ truncation_marker
      else text)"

section \<open>tools/taxonomyExtended.ts\<close>

record TaxonomyApiResponse =
  taxonomy_id :: jsstring
  taxonomy_type :: jsstring
  taxonomy_preferred_label :: jsstring
  taxonomy_deprecated :: "bool option"
  taxonomy_definition :: "jsstring option"

record TaxonomyConcept =
  conceptId :: jsstring
  preferredLabel :: jsstring
  concept_type :: "jsstring option"
  deprecated :: "bool option"
  concept_definition :: "jsstring option"

record ConceptDetail = TaxonomyConcept +
  broader :: "TaxonomyConcept list option"
  narrower :: "TaxonomyConcept list option"
  related :: "TaxonomyConcept list option"
  ssyk_code_2012 :: "jsstring option"
  sun_code :: "jsstring option"

text \<open>
  What a handler returns: the text of its one content block, the structured content when
  there is one, and \<open>isError\<close> (absent is \<open>False\<close>).
\<close>

record 'sc tool_result =
  text_block :: jsstring
  structuredContent :: "'sc option"
  isError :: bool

definition mapItem :: "TaxonomyApiResponse \<Rightarrow> TaxonomyConcept" where
  "mapItem item =
     \<lparr>conceptId = taxonomy_id item,
      preferredLabel = taxonomy_preferred_label item,
      concept_type = Some (taxonomy_type item),
      deprecated = taxonomy_deprecated item,
      concept_definition = taxonomy_definition item\<rparr>"

text \<open>\<open>lines.join("\n")\<close>.\<close>

fun join_lines :: "jsstring list \<Rightarrow> jsstring" where
  "join_lines [] = []"
| "join_lines [l] = l"
| "join_lines (l # m # ls) = l @ [10] @ join_lines (m # ls)"

text \<open>Truthiness of an optional boolean: absent and \<open>false\<close> are falsy.\<close>

definition truthy_bool :: "bool option \<Rightarrow> bool" where
  "truthy_bool b = (b = Some True)"

text \<open>
  \<open>Promise.all\<close> over promises that settle as \<open>rs\<close>: with no rejection it resolves with
  all the values; otherwise it rejects with the rejection that comes first in time, which
  can be any of them. The result is the list of the possible outcomes.
\<close>

definition Promise_all :: "(js_error + 'a) list \<Rightarrow> (js_error + 'a list) list" where
  "Promise_all rs =
     (if filter isl rs = [] then [Inr (map projr rs)]
      else map (\<lambda>r. Inl (projl r)) (filter isl rs))"

definition not_found :: "jsstring \<Rightarrow> 'sc tool_result" where
  "not_found concept_id =
     \<lparr>text_block = lit ''Taxonomy concept with ID '' @ [34] @ concept_id @ [34] @ lit '' not found.'',
      structuredContent = None, isError = False\<rparr>"

definition relation_line :: "TaxonomyConcept \<Rightarrow> jsstring" where
  "relation_line c = lit ''  - '' @ preferredLabel c @ lit '' ('' @ [96] @ conceptId c @ [96] @ lit '')''"

text \<open>The lines of the text for a concept with its relations.\<close>

definition concept_lines :: "ConceptDetail \<Rightarrow> jsstring list" where
  "concept_lines concept =
     [lit ''## '' @ preferredLabel concept,
      lit ''**ID:** '' @ [96] @ conceptId concept @ [96],
      lit ''**Type:** '' @ (case concept_type concept of None \<Rightarrow> lit ''unknown'' | Some t \<Rightarrow> t)]
     @ (if truthy_bool (deprecated concept)
        then [[0x26A0, 0xFE0F] @ lit '' **Deprecated concept**''] else [])
     @ (case concept_definition concept of
          None \<Rightarrow> []
        | Some d \<Rightarrow> if d = [] then [] else [[10] @ lit ''**Definition:** '' @ d])
     @ (case broader concept of
          None \<Rightarrow> []
        | Some bs \<Rightarrow>
            if bs = [] then []
            else [[10] @ lit ''**Parent (broader):**''] @ map relation_line bs)
     @ (case narrower concept of
          None \<Rightarrow> []
        | Some ns \<Rightarrow>
            if ns = [] then []
            else [[10] @ lit ''**Children (narrower) ('' @ String_num (int (length ns)) @ lit ''):**'']
                 @ map relation_line (take 20 ns)
                 @ (if length ns > 20
                    then [lit ''  ...and '' @ String_num (int (length ns) - 20) @ lit '' more'']
                    else []))
     @ (case related concept of
          None \<Rightarrow> []
        | Some rs \<Rightarrow>
            if rs = [] then []
            else [[10] @ lit ''**Related:**''] @ map relation_line (take 10 rs))"

text \<open>
  The object \<open>{...baseConcept, broader, narrower, related}\<close>: the fields of the mapped
  item and the three mapped relation lists.
\<close>

definition concept_of :: "TaxonomyApiResponse \<Rightarrow> TaxonomyApiResponse list \<Rightarrow> TaxonomyApiResponse list \<Rightarrow> TaxonomyApiResponse list \<Rightarrow> ConceptDetail" where
  "concept_of item broaderRes narrowerRes relatedRes =
     \<lparr>conceptId = conceptId (mapItem item),
      preferredLabel = preferredLabel (mapItem item),
      concept_type = concept_type (mapItem item),
      deprecated = deprecated (mapItem item),
      concept_definition = concept_definition (mapItem item),
      broader = Some (map mapItem broaderRes),
      narrower = Some (map mapItem narrowerRes),
      related = Some (map mapItem relatedRes),
      ssyk_code_2012 = None,
      sun_code = None\<rparr>"

text \<open>
  The handler of \<open>af_get_taxonomy_concept\<close> after \<open>await Promise.all\<close>: the \<open>try\<close> body
  for the four values, the \<open>catch\<close> block for a rejection. \<open>Promise.all\<close> over four
  promises resolves with four values; an array without a first element would leave
  \<open>conceptRes\<close> undefined, which is the not-found answer.
\<close>

fun concept_settled :: "jsstring \<Rightarrow> js_error + TaxonomyApiResponse list list \<Rightarrow> ConceptDetail tool_result" where
  "concept_settled concept_id (Inr [conceptRes, broaderRes, narrowerRes, relatedRes]) =
     (case conceptRes of
        [] \<Rightarrow> not_found concept_id
      | item # items \<Rightarrow>
          \<lparr>text_block =
             take CHARACTER_LIMIT
               (join_lines (concept_lines (concept_of item broaderRes narrowerRes relatedRes))),
           structuredContent = Some (concept_of item broaderRes narrowerRes relatedRes),
           isError = False\<rparr>)"
| "concept_settled concept_id (Inr vs) = not_found concept_id"
| "concept_settled concept_id (Inl err) =
     (if statusCode err = Some 404 then not_found concept_id
      else \<lparr>text_block = lit ''An error occurred: '' @ message err,
            structuredContent = None, isError = True\<rparr>)"

definition concepts_path :: jsstring where
  "concepts_path = lit ''/v1/taxonomy/main/concepts''"

definition getConceptUrl :: "(jsstring \<Rightarrow> url option) \<Rightarrow> jsstring \<Rightarrow> js_error + jsstring" where
  "getConceptUrl parser concept_id =
     buildTaxonomyUrl parser concepts_path
       [(lit ''id'', Str concept_id), (lit ''include-deprecated'', Str (lit ''true''))]"

definition getRelationUrl :: "(jsstring \<Rightarrow> url option) \<Rightarrow> jsstring \<Rightarrow> jsstring \<Rightarrow> js_error + jsstring" where
  "getRelationUrl parser concept_id relation =
     buildTaxonomyUrl parser concepts_path
       [(lit ''related-ids'', Str concept_id), (lit ''relation'', Str relation),
        (lit ''include-deprecated'', Str (lit ''true''))]"

text \<open>
  The handler of \<open>af_get_taxonomy_concept\<close>. The four URLs are built outside \<open>try\<close>, so
  an error of \<open>buildUrl\<close> leaves the handler (\<open>Inl\<close>). The four requests are sent in
  parallel, each with its own attempts. The result lists the possible outcomes.
\<close>

definition af_get_taxonomy_concept ::
  "(jsstring \<Rightarrow> url option) \<Rightarrow> ('b, TaxonomyApiResponse list) network \<Rightarrow> jsstring
    \<Rightarrow> (js_error + ConceptDetail tool_result) list" where
  "af_get_taxonomy_concept parser net concept_id =
     (case getConceptUrl parser concept_id of
        Inl err \<Rightarrow> [Inl err]
      | Inr conceptUrl \<Rightarrow>
     (case getRelationUrl parser concept_id (lit ''broader'') of
        Inl err \<Rightarrow> [Inl err]
      | Inr broaderUrl \<Rightarrow>
     (case getRelationUrl parser concept_id (lit ''narrower'') of
        Inl err \<Rightarrow> [Inl err]
      | Inr narrowerUrl \<Rightarrow>
     (case getRelationUrl parser concept_id (lit ''related'') of
        Inl err \<Rightarrow> [Inl err]
      | Inr relatedUrl \<Rightarrow>
          map (\<lambda>settled. Inr (concept_settled concept_id settled))
            (Promise_all
               [fst (taxonomyFetch net conceptUrl), fst (taxonomyFetch net broaderUrl),
                fst (taxonomyFetch net narrowerUrl), fst (taxonomyFetch net relatedUrl)])))))"

record list_content =
  list_type :: jsstring
  count :: nat
  concepts :: "TaxonomyConcept list"

definition concept_line :: "TaxonomyConcept \<Rightarrow> jsstring" where
  "concept_line c =
     lit ''- **'' @ preferredLabel c @ lit ''** '' @ [0x2014] @ lit '' '' @ [96] @ conceptId c @ [96]"

definition list_header :: "nat \<Rightarrow> jsstring \<Rightarrow> jsstring" where
  "list_header n type_name =
     lit ''**'' @ String_num (int n) @ lit ''** concepts of type '' @ [34] @ type_name @ [34]
     @ lit '':'' @ [10, 10]"

definition active_concepts :: "bool \<Rightarrow> TaxonomyConcept list \<Rightarrow> TaxonomyConcept list" where
  "active_concepts include_deprecated cs =
     (if include_deprecated then cs else filter (\<lambda>c. \<not> truthy_bool (deprecated c)) cs)"

text \<open>
  The handler of \<open>af_list_taxonomy_types\<close>: a rejection with status code 404 gives a text,
  any other rejection is thrown again (\<open>Inl\<close>), as is an error of \<open>buildUrl\<close>.
\<close>

definition af_list_taxonomy_types ::
  "(jsstring \<Rightarrow> url option) \<Rightarrow> ('b, TaxonomyApiResponse list) network \<Rightarrow> jsstring \<Rightarrow> bool
    \<Rightarrow> js_error + list_content tool_result" where
  "af_list_taxonomy_types parser net type_name include_deprecated =
     (case buildTaxonomyUrl parser concepts_path
             [(lit ''type'', Str type_name),
              (lit ''include-deprecated'', Str (if include_deprecated then lit ''true'' else lit ''false'')),
              (lit ''limit'', Num 500)] of
        Inl err \<Rightarrow> Inl err
      | Inr url \<Rightarrow>
          (case fst (taxonomyFetch net url) of
             Inl err \<Rightarrow>
               if statusCode err = Some 404
               then Inr \<lparr>text_block = lit ''No taxonomy concepts of type '' @ [34] @ type_name @ [34]
                                        @ lit '' found.'',
                         structuredContent = None, isError = False\<rparr>
               else Inl err
           | Inr response \<Rightarrow>
               if map mapItem response = []
               then Inr \<lparr>text_block = lit ''No concepts found for type '' @ [34] @ type_name @ [34]
                                        @ lit ''.'',
                         structuredContent = None, isError = False\<rparr>
               else
                 (let active = active_concepts include_deprecated (map mapItem response)
                  in Inr \<lparr>text_block =
                             take CHARACTER_LIMIT
                               (list_header (length active) type_name
                                @ join_lines (map concept_line active)),
                           structuredContent =
                             Some \<lparr>list_type = type_name, count = length active,
                                   concepts = active\<rparr>,
                           isError = False\<rparr>)))"

section \<open>Conditions on the network\<close>

text \<open>
  The attempts before the \<open>j\<close>-th are answered with a status of 500 or more, and the
  \<open>j\<close>-th is aborted by the cancellation signal.
\<close>

definition aborts_at :: "('b, 'a) network \<Rightarrow> 'b request \<Rightarrow> nat \<Rightarrow> bool" where
  "aborts_at net req j =
     ((\<forall>i<j. \<exists>r. net req i = Resolves r \<and> 500 \<le> status r)
      \<and> (\<exists>msg. net req j = Rejects (lit ''AbortError'') msg))"

text \<open>No response carries the status 0.\<close>

definition http_statuses :: "('b, 'a) network \<Rightarrow> 'b request \<Rightarrow> bool" where
  "http_statuses net req = (\<forall>k r. net req k = Resolves r \<longrightarrow> status r \<noteq> 0)"

text \<open>An \<open>ApiError\<close> for the URL that carries a status of 500 or more.\<close>

fun ServerError :: "jsstring \<Rightarrow> js_error \<Rightarrow> bool" where
  "ServerError url (ApiError m (Some sc) (Some ep)) = (500 \<le> sc \<and> ep = url)"
| "ServerError url e = False"

section \<open>Mock upstreams\<close>

text \<open>An upstream that answers every attempt with 503.\<close>

definition server_down :: "(unit, unit) network" where
  "server_down req k =
     Resolves \<lparr>status = 503, statusText = lit ''Service Unavailable'', json = Inl (lit ''Unexpected end of JSON input'')\<rparr>"

text \<open>An upstream that answers every attempt with 429.\<close>

definition rate_limited :: "(unit, unit) network" where
  "rate_limited req k =
     Resolves \<lparr>status = 429, statusText = lit ''Too Many Requests'', json = Inl (lit ''Unexpected end of JSON input'')\<rparr>"

text \<open>
  An upstream that answers the first \<open>n\<close> attempts with 503 and then does not answer
  before the signal aborts the attempt.
\<close>

definition hangs_after :: "nat \<Rightarrow> (unit, unit) network" where
  "hangs_after n req k =
     (if k < n
      then Resolves \<lparr>status = 503, statusText = lit ''Service Unavailable'', json = Inl (lit ''Unexpected end of JSON input'')\<rparr>
      else Rejects (lit ''AbortError'') (lit ''This operation was aborted''))"

definition example_url :: jsstring where
  "example_url = lit ''https://example.com/search''"

text \<open>
  An upstream that sends the headers of a 200 response after 100 ms and completes the
  body 13700 ms later.
\<close>

definition slow_body :: "(unit, unit) timed_network" where
  "slow_body req k =
     Answers 100 \<lparr>status = 200, statusText = lit ''OK'', json = Inr ()\<rparr> 13700"

text \<open>
  A stand-in for the rest of the platform's URL parser: it accepts every string, as a URL
  without query and fragment whose serialisation is the string itself.
\<close>

definition accepting_parser :: "jsstring \<Rightarrow> url option" where
  "accepting_parser s =
     Some \<lparr>url_head = s, url_query = None, url_fragment = None, searchParams = []\<rparr>"

text \<open>The parameters of the specification's example of URL construction.\<close>

definition example_params :: "(jsstring \<times> param_value) list" where
  "example_params =
     [(lit ''q'', Str (lit ''nurse'')), (lit ''limit'', Num 10),
      (lit ''tags'', Arr [lit ''a'', lit ''b'']), (lit ''missing'', Undefined)]"


text \<open>A text ends with a marker.\<close>

definition ends_with :: "jsstring \<Rightarrow> jsstring \<Rightarrow> bool" where
  "ends_with s m = (length m \<le> length s \<and> drop (length s - length m) s = m)"

text \<open>A taxonomy upstream that answers every request with 200 and the given items.\<close>

definition taxonomy_upstream :: "TaxonomyApiResponse list \<Rightarrow> (unit, TaxonomyApiResponse list) network" where
  "taxonomy_upstream items req k =
     Resolves \<lparr>status = 200, statusText = lit ''OK'', json = Inr items\<rparr>"

definition nurse_item :: TaxonomyApiResponse where
  "nurse_item =
     \<lparr>taxonomy_id = lit ''i46j_HmG_v64'', taxonomy_type = lit ''occupation-name'',
      taxonomy_preferred_label = lit ''Nurse'', taxonomy_deprecated = None,
      taxonomy_definition = None\<rparr>"

definition retired_item :: TaxonomyApiResponse where
  "retired_item =
     \<lparr>taxonomy_id = lit ''old1_abc_def'', taxonomy_type = lit ''occupation-name'',
      taxonomy_preferred_label = lit ''Telegraphist'', taxonomy_deprecated = Some True,
      taxonomy_definition = None\<rparr>"

text \<open>
  A taxonomy upstream on which the request for the related concepts of the concept
  \<open>i46j_HmG_v64\<close> is always answered with 503, and every other request with 200 and one
  concept.
\<close>

definition related_url :: jsstring where
  "related_url =
     lit ''https://taxonomy.api.jobtechdev.se/v1/taxonomy/main/concepts?related-ids=i46j_HmG_v64&relation=related&include-deprecated=true''"

definition related_down :: "(unit, TaxonomyApiResponse list) network" where
  "related_down req k =
     (if req_url req = related_url
      then Resolves \<lparr>status = 503, statusText = lit ''Service Unavailable'',
                     json = Inl (lit ''Unexpected end of JSON input'')\<rparr>
      else Resolves \<lparr>status = 200, statusText = lit ''OK'', json = Inr [nurse_item]\<rparr>)"

text \<open>A concept whose label has 50000 characters.\<close>

definition long_item :: TaxonomyApiResponse where
  "long_item =
     \<lparr>taxonomy_id = lit ''long_id'', taxonomy_type = lit ''skill'',
      taxonomy_preferred_label = replicate 50000 97, taxonomy_deprecated = None,
      taxonomy_definition = None\<rparr>"

section \<open>The retry policy\<close>

lemma lit_names_neq [simp]: "lit ''ApiError'' \<noteq> lit ''AbortError''"
  by (simp add: lit_def)

lemma catch_block_ApiError [simp]: "catch_block url (ApiError m sc ep) = ApiError m sc ep"
  by (simp add: catch_block_def)

lemma catch_block_Abort [simp]:
  "catch_block url (Error (lit ''AbortError'') msg) = ApiError (timeout_message url) (Some 0) (Some url)"
  by (simp add: catch_block_def)

lemma attempts_simps [simp]:
  "attempts [] = 0"
  "attempts (Fetch r # es) = Suc (attempts es)"
  "attempts (SetAbortTimer t # es) = attempts es"
  "attempts (Warn u n d # es) = attempts es"
  "attempts (Sleep d # es) = attempts es"
  by (simp_all add: attempts_def)

lemma fetchJson_429:
  assumes "net (get_request url) k = Resolves r" and "status r = 429"
  shows "fetchJson net k url retries =
     (Inl (ApiError rate_limit_message (Some 429) (Some url)),
      [SetAbortTimer 10000, Fetch (get_request url)])"
  using assms by (simp add: fetchJson.simps)

lemma fetchJson_abort:
  assumes "net (get_request url) k = Rejects (lit ''AbortError'') msg"
  shows "fetchJson net k url retries =
     (Inl (ApiError (timeout_message url) (Some 0) (Some url)),
      [SetAbortTimer 10000, Fetch (get_request url)])"
  using assms by (simp add: fetchJson.simps)

lemma fetchJson_retry:
  assumes "net (get_request url) k = Resolves r" and "500 \<le> status r" and "0 < retries"
  shows "fetchJson net k url retries =
     (fst (fetchJson net (Suc k) url (retries - 1)),
      [SetAbortTimer 10000, Fetch (get_request url),
       Warn url (retries - 1) (of_int ((4 - retries) * 1000)),
       Sleep (of_int ((4 - retries) * 1000))] @ snd (fetchJson net (Suc k) url (retries - 1)))"
  using assms by (simp add: fetchJson.simps [of net k] split: prod.splits)

lemma fetchJson_exhausted:
  assumes "net (get_request url) k = Resolves r" and "500 \<le> status r" and "retries \<le> 0"
  shows "fetchJson net k url retries =
     (Inl (ApiError (lit ''API request failed: '' @ String_num (status r) @ lit '' '' @ statusText r)
             (Some (status r)) (Some url)),
      [SetAbortTimer 10000, Fetch (get_request url)])"
  using assms by (simp add: fetchJson.simps [of net k] ok_def)

lemma fetchJson_5xx_step:
  assumes "always_5xx net (get_request url)" and "0 < retries"
  shows "fetchJson net k url retries =
     (fst (fetchJson net (Suc k) url (retries - 1)),
      [SetAbortTimer 10000, Fetch (get_request url),
       Warn url (retries - 1) (of_int ((4 - retries) * 1000)),
       Sleep (of_int ((4 - retries) * 1000))] @ snd (fetchJson net (Suc k) url (retries - 1)))"
proof -
  from assms(1) obtain r where "net (get_request url) k = Resolves r" "500 \<le> status r"
    unfolding always_5xx_def by blast
  then show ?thesis using assms(2) by (rule fetchJson_retry)
qed

lemma fetchJson_5xx_stop:
  assumes "always_5xx net (get_request url)" and "retries \<le> 0"
  shows "snd (fetchJson net k url retries) = [SetAbortTimer 10000, Fetch (get_request url)]"
proof -
  from assms(1) obtain r where "net (get_request url) k = Resolves r" "500 \<le> status r"
    unfolding always_5xx_def by blast
  then show ?thesis using assms(2) by (simp add: fetchJson_exhausted)
qed

lemma fetchJson_5xx_attempts:
  assumes "always_5xx net (get_request url)"
  shows "attempts (snd (fetchJson net k url (int n))) = n + 1"
proof (induction n arbitrary: k)
  case 0
  show ?case by (simp add: fetchJson_5xx_stop [OF assms])
next
  case (Suc n)
  have step: "fetchJson net k url (int (Suc n)) =
     (fst (fetchJson net (Suc k) url (int n)),
      [SetAbortTimer 10000, Fetch (get_request url),
       Warn url (int n) (of_int ((4 - int (Suc n)) * 1000)),
       Sleep (of_int ((4 - int (Suc n)) * 1000))] @ snd (fetchJson net (Suc k) url (int n)))"
    using fetchJson_5xx_step [OF assms, of "int (Suc n)" k] by simp
  show ?case unfolding step using Suc.IH [of "Suc k"] by simp
qed

lemma fetchJson_5xx_result:
  assumes "always_5xx net (get_request url)"
  shows "\<exists>e. fst (fetchJson net k url (int n)) = Inl e \<and> ServerError url e"
proof (induction n arbitrary: k)
  case 0
  from assms obtain r where "net (get_request url) k = Resolves r" "500 \<le> status r"
    unfolding always_5xx_def by blast
  then show ?case by (simp add: fetchJson_exhausted)
next
  case (Suc n)
  have step: "fetchJson net k url (int (Suc n)) =
     (fst (fetchJson net (Suc k) url (int n)),
      [SetAbortTimer 10000, Fetch (get_request url),
       Warn url (int n) (of_int ((4 - int (Suc n)) * 1000)),
       Sleep (of_int ((4 - int (Suc n)) * 1000))] @ snd (fetchJson net (Suc k) url (int n)))"
    using fetchJson_5xx_step [OF assms, of "int (Suc n)" k] by simp
  show ?case unfolding step using Suc.IH [of "Suc k"] by simp
qed

lemma fetchJson_default_delays:
  assumes "always_5xx net (get_request url)"
  shows "delays (snd (fetchJson net k url 3)) = [1000, 2000, 3000]"
  by (simp add: fetchJson_5xx_step [OF assms] fetchJson_5xx_stop [OF assms])

lemma fetchJson_abort_after:
  assumes "\<forall>i<j. \<exists>r. net (get_request url) (k + i) = Resolves r \<and> 500 \<le> status r"
    and "int j \<le> retries"
    and "net (get_request url) (k + j) = Rejects (lit ''AbortError'') msg"
  shows "fst (fetchJson net k url retries) = Inl (ApiError (timeout_message url) (Some 0) (Some url))
     \<and> attempts (snd (fetchJson net k url retries)) = j + 1"
  using assms
proof (induction j arbitrary: k retries)
  case 0
  then show ?case by (simp add: fetchJson_abort)
next
  case (Suc j)
  from Suc.prems(1) obtain r where r: "net (get_request url) k = Resolves r" "500 \<le> status r"
    by force
  have "\<forall>i<j. \<exists>r. net (get_request url) (Suc k + i) = Resolves r \<and> 500 \<le> status r"
    using Suc.prems(1) by (metis Suc_less_eq add_Suc_shift)
  moreover have "int j \<le> retries - 1" using Suc.prems(2) by simp
  moreover have "net (get_request url) (Suc k + j) = Rejects (lit ''AbortError'') msg"
    using Suc.prems(3) by simp
  ultimately have "fst (fetchJson net (Suc k) url (retries - 1)) = Inl (ApiError (timeout_message url) (Some 0) (Some url))
     \<and> attempts (snd (fetchJson net (Suc k) url (retries - 1))) = j + 1"
    by (rule Suc.IH)
  moreover have "0 < retries" using Suc.prems(2) by simp
  ultimately show ?case using r by (simp add: fetchJson_retry)
qed

lemma fetchJson_aborts_at:
  assumes "aborts_at net (get_request url) j" and "int j \<le> retries"
  shows "fst (fetchJson net 0 url retries) = Inl (ApiError (timeout_message url) (Some 0) (Some url))
     \<and> attempts (snd (fetchJson net 0 url retries)) = j + 1"
proof -
  have a: "\<forall>i<j. \<exists>r. net (get_request url) (0 + i) = Resolves r \<and> 500 \<le> status r"
    using assms(1) unfolding aborts_at_def by simp
  from assms(1) obtain msg where b: "net (get_request url) (0 + j) = Rejects (lit ''AbortError'') msg"
    unfolding aborts_at_def by auto
  show ?thesis
    by (rule fetchJson_abort_after [where net = net and k = 0 and j = j and url = url, OF a assms(2) b])
qed

lemma fetchJson_status0:
  assumes "http_statuses net (get_request url)"
    and "fst (fetchJson net k url retries) = Inl (ApiError m (Some 0) ep)"
  shows "m = timeout_message url \<and> ep = Some url \<and>
    (\<exists>msg. net (get_request url) (k + attempts (snd (fetchJson net k url retries)) - 1) = Rejects (lit ''AbortError'') msg)"
  using assms
proof (induction net k url retries rule: fetchJson.induct)
  case (1 net k url retries)
  show ?case
  proof (cases "net (get_request url) k")
    case (Rejects nm msg)
    with "1.prems"(2) show ?thesis
      by (auto simp: fetchJson.simps [of net k] catch_block_def split: if_splits)
  next
    case (Resolves r)
    with "1.prems"(1) have nz: "status r \<noteq> 0" unfolding http_statuses_def by blast
    show ?thesis
    proof (cases "status r \<noteq> 429 \<and> 500 \<le> status r \<and> 0 < retries")
      case True
      then have eq: "fetchJson net k url retries =
        (fst (fetchJson net (Suc k) url (retries - 1)),
         [SetAbortTimer 10000, Fetch (get_request url),
          Warn url (retries - 1) (of_int ((4 - retries) * 1000)),
          Sleep (of_int ((4 - retries) * 1000))] @ snd (fetchJson net (Suc k) url (retries - 1)))"
        using Resolves by (simp add: fetchJson_retry)
      have "m = timeout_message url \<and> ep = Some url \<and>
        (\<exists>msg. net (get_request url) (Suc k + attempts (snd (fetchJson net (Suc k) url (retries - 1))) - 1) = Rejects (lit ''AbortError'') msg)"
        using "1.IH" [OF Resolves _ _ "1.prems"(1)] True "1.prems"(2) eq by simp
      then show ?thesis using eq by simp
    next
      case False
      then show ?thesis using Resolves nz "1.prems"(2)
        by (auto simp: fetchJson.simps [of net k] split: if_splits sum.splits)
    qed
  qed
qed

lemma postJson_429:
  assumes "net (post_request url body) k = Resolves r" and "status r = 429"
  shows "postJson net k url body retries =
     (Inl (ApiError rate_limit_message (Some 429) (Some url)),
      [SetAbortTimer 10000, Fetch (post_request url body)])"
  using assms by (simp add: postJson.simps)

lemma postJson_abort:
  assumes "net (post_request url body) k = Rejects (lit ''AbortError'') msg"
  shows "postJson net k url body retries =
     (Inl (ApiError (timeout_message url) (Some 0) (Some url)),
      [SetAbortTimer 10000, Fetch (post_request url body)])"
  using assms by (simp add: postJson.simps)

lemma postJson_retry:
  assumes "net (post_request url body) k = Resolves r" and "500 \<le> status r" and "0 < retries"
  shows "postJson net k url body retries =
     (fst (postJson net (Suc k) url body (retries - 1)),
      [SetAbortTimer 10000, Fetch (post_request url body),
       Warn url (retries - 1) (Math_pow2 (3 - retries) * 1000),
       Sleep (Math_pow2 (3 - retries) * 1000)] @ snd (postJson net (Suc k) url body (retries - 1)))"
  using assms by (simp add: postJson.simps [of net k] split: prod.splits)

lemma postJson_exhausted:
  assumes "net (post_request url body) k = Resolves r" and "500 \<le> status r" and "retries \<le> 0"
  shows "postJson net k url body retries =
     (Inl (ApiError (lit ''POST API request failed: '' @ String_num (status r) @ lit '' '' @ statusText r)
             (Some (status r)) (Some url)),
      [SetAbortTimer 10000, Fetch (post_request url body)])"
  using assms by (simp add: postJson.simps [of net k] ok_def)

lemma postJson_5xx_step:
  assumes "always_5xx net (post_request url body)" and "0 < retries"
  shows "postJson net k url body retries =
     (fst (postJson net (Suc k) url body (retries - 1)),
      [SetAbortTimer 10000, Fetch (post_request url body),
       Warn url (retries - 1) (Math_pow2 (3 - retries) * 1000),
       Sleep (Math_pow2 (3 - retries) * 1000)] @ snd (postJson net (Suc k) url body (retries - 1)))"
proof -
  from assms(1) obtain r where "net (post_request url body) k = Resolves r" "500 \<le> status r"
    unfolding always_5xx_def by blast
  then show ?thesis using assms(2) by (rule postJson_retry)
qed

lemma postJson_5xx_stop:
  assumes "always_5xx net (post_request url body)" and "retries \<le> 0"
  shows "snd (postJson net k url body retries) = [SetAbortTimer 10000, Fetch (post_request url body)]"
proof -
  from assms(1) obtain r where "net (post_request url body) k = Resolves r" "500 \<le> status r"
    unfolding always_5xx_def by blast
  then show ?thesis using assms(2) by (simp add: postJson_exhausted)
qed

lemma postJson_5xx_attempts:
  assumes "always_5xx net (post_request url body)"
  shows "attempts (snd (postJson net k url body (int n))) = n + 1"
proof (induction n arbitrary: k)
  case 0
  show ?case by (simp add: postJson_5xx_stop [OF assms])
next
  case (Suc n)
  have step: "postJson net k url body (int (Suc n)) =
     (fst (postJson net (Suc k) url body (int n)),
      [SetAbortTimer 10000, Fetch (post_request url body),
       Warn url (int n) (Math_pow2 (3 - int (Suc n)) * 1000),
       Sleep (Math_pow2 (3 - int (Suc n)) * 1000)] @ snd (postJson net (Suc k) url body (int n)))"
    using postJson_5xx_step [OF assms, of "int (Suc n)" k] by simp
  show ?case unfolding step using Suc.IH [of "Suc k"] by simp
qed

lemma postJson_5xx_result:
  assumes "always_5xx net (post_request url body)"
  shows "\<exists>e. fst (postJson net k url body (int n)) = Inl e \<and> ServerError url e"
proof (induction n arbitrary: k)
  case 0
  from assms obtain r where "net (post_request url body) k = Resolves r" "500 \<le> status r"
    unfolding always_5xx_def by blast
  then show ?case by (simp add: postJson_exhausted)
next
  case (Suc n)
  have step: "postJson net k url body (int (Suc n)) =
     (fst (postJson net (Suc k) url body (int n)),
      [SetAbortTimer 10000, Fetch (post_request url body),
       Warn url (int n) (Math_pow2 (3 - int (Suc n)) * 1000),
       Sleep (Math_pow2 (3 - int (Suc n)) * 1000)] @ snd (postJson net (Suc k) url body (int n)))"
    using postJson_5xx_step [OF assms, of "int (Suc n)" k] by simp
  show ?case unfolding step using Suc.IH [of "Suc k"] by simp
qed

lemma postJson_default_delays:
  assumes "always_5xx net (post_request url body)"
  shows "delays (snd (postJson net k url body 3)) = [1000, 2000, 4000]"
  by (simp add: postJson_5xx_step [OF assms] postJson_5xx_stop [OF assms] Math_pow2_def)

lemma postJson_abort_after:
  assumes "\<forall>i<j. \<exists>r. net (post_request url body) (k + i) = Resolves r \<and> 500 \<le> status r"
    and "int j \<le> retries"
    and "net (post_request url body) (k + j) = Rejects (lit ''AbortError'') msg"
  shows "fst (postJson net k url body retries) = Inl (ApiError (timeout_message url) (Some 0) (Some url))
     \<and> attempts (snd (postJson net k url body retries)) = j + 1"
  using assms
proof (induction j arbitrary: k retries)
  case 0
  then show ?case by (simp add: postJson_abort)
next
  case (Suc j)
  from Suc.prems(1) obtain r where r: "net (post_request url body) k = Resolves r" "500 \<le> status r"
    by force
  have "\<forall>i<j. \<exists>r. net (post_request url body) (Suc k + i) = Resolves r \<and> 500 \<le> status r"
    using Suc.prems(1) by (metis Suc_less_eq add_Suc_shift)
  moreover have "int j \<le> retries - 1" using Suc.prems(2) by simp
  moreover have "net (post_request url body) (Suc k + j) = Rejects (lit ''AbortError'') msg"
    using Suc.prems(3) by simp
  ultimately have "fst (postJson net (Suc k) url body (retries - 1)) = Inl (ApiError (timeout_message url) (Some 0) (Some url))
     \<and> attempts (snd (postJson net (Suc k) url body (retries - 1))) = j + 1"
    by (rule Suc.IH)
  moreover have "0 < retries" using Suc.prems(2) by simp
  ultimately show ?case using r by (simp add: postJson_retry)
qed

lemma postJson_aborts_at:
  assumes "aborts_at net (post_request url body) j" and "int j \<le> retries"
  shows "fst (postJson net 0 url body retries) = Inl (ApiError (timeout_message url) (Some 0) (Some url))
     \<and> attempts (snd (postJson net 0 url body retries)) = j + 1"
proof -
  have a: "\<forall>i<j. \<exists>r. net (post_request url body) (0 + i) = Resolves r \<and> 500 \<le> status r"
    using assms(1) unfolding aborts_at_def by simp
  from assms(1) obtain msg where b: "net (post_request url body) (0 + j) = Rejects (lit ''AbortError'') msg"
    unfolding aborts_at_def by auto
  show ?thesis
    by (rule postJson_abort_after [where net = net and k = 0 and j = j and url = url and body = body, OF a assms(2) b])
qed

lemma postJson_status0:
  assumes "http_statuses net (post_request url body)"
    and "fst (postJson net k url body retries) = Inl (ApiError m (Some 0) ep)"
  shows "m = timeout_message url \<and> ep = Some url \<and>
    (\<exists>msg. net (post_request url body) (k + attempts (snd (postJson net k url body retries)) - 1) = Rejects (lit ''AbortError'') msg)"
  using assms
proof (induction net k url body retries rule: postJson.induct)
  case (1 net k url body retries)
  show ?case
  proof (cases "net (post_request url body) k")
    case (Rejects nm msg)
    with "1.prems"(2) show ?thesis
      by (auto simp: postJson.simps [of net k] catch_block_def split: if_splits)
  next
    case (Resolves r)
    with "1.prems"(1) have nz: "status r \<noteq> 0" unfolding http_statuses_def by blast
    show ?thesis
    proof (cases "status r \<noteq> 429 \<and> 500 \<le> status r \<and> 0 < retries")
      case True
      then have eq: "postJson net k url body retries =
        (fst (postJson net (Suc k) url body (retries - 1)),
         [SetAbortTimer 10000, Fetch (post_request url body),
          Warn url (retries - 1) (Math_pow2 (3 - retries) * 1000),
          Sleep (Math_pow2 (3 - retries) * 1000)] @ snd (postJson net (Suc k) url body (retries - 1)))"
        using Resolves by (simp add: postJson_retry)
      have "m = timeout_message url \<and> ep = Some url \<and>
        (\<exists>msg. net (post_request url body) (Suc k + attempts (snd (postJson net (Suc k) url body (retries - 1))) - 1) = Rejects (lit ''AbortError'') msg)"
        using "1.IH" [OF Resolves _ _ "1.prems"(1)] True "1.prems"(2) eq by simp
      then show ?thesis using eq by simp
    next
      case False
      then show ?thesis using Resolves nz "1.prems"(2)
        by (auto simp: postJson.simps [of net k] split: if_splits sum.splits)
    qed
  qed
qed

section \<open>The clock\<close>

lemma effects_append: "effects (xs @ ys) = effects xs @ effects ys"
  by (induction xs rule: effects.induct) simp_all

lemma effects_take_drop: "effects (take n xs @ (t, ClearAbortTimer) # drop n xs) = effects xs"
proof -
  have "effects (take n xs @ (t, ClearAbortTimer) # drop n xs) = effects (take n xs) @ effects (drop n xs)"
    by (simp add: effects_append)
  also have "\<dots> = effects (take n xs @ drop n xs)" by (simp only: effects_append)
  also have "\<dots> = effects xs" by simp
  finally show ?thesis .
qed

lemma fetch_under_signal_deadline:
  "(fetch_under_signal ms x = Responds h r b \<longrightarrow> h < ms)
   \<and> (fetch_under_signal ms x = Throws h nm msg \<longrightarrow> h \<le> ms)"
  by (auto simp: fetch_under_signal_def split: exchange.splits if_splits)

lemma fetchJson_timed_untimed:
  "fst (fetchJson_timed net t k url retries) = fst (fetchJson (untimed net) k url retries)
   \<and> effects (snd (snd (fetchJson_timed net t k url retries))) = snd (fetchJson (untimed net) k url retries)"
proof (induction net t k url retries rule: fetchJson_timed.induct)
  case (1 net t k url retries)
  show ?case
  proof (cases "fetch_under_signal 10000 (net (get_request url) k)")
    case (Throws h nm msg)
    then have "untimed net (get_request url) k = Rejects nm msg" by (simp add: untimed_def)
    with Throws show ?thesis
      by (simp add: fetchJson_timed.simps [of net t k] fetchJson.simps [of "untimed net" k])
  next
    case (Responds h r b)
    then have u: "untimed net (get_request url) k = Resolves r" by (simp add: untimed_def)
    show ?thesis
    proof (cases "status r \<noteq> 429 \<and> 500 \<le> status r \<and> 0 < retries")
      case True
      let ?inner = "fetchJson_timed net (t + h + timer_wait (of_int ((4 - retries) * 1000))) (Suc k) url (retries - 1)"
      have ih: "fst ?inner = fst (fetchJson (untimed net) (Suc k) url (retries - 1))
        \<and> effects (snd (snd ?inner)) = snd (fetchJson (untimed net) (Suc k) url (retries - 1))"
        using "1.IH" [OF Responds] True by simp
      obtain res settled_at tr where i: "?inner = (res, settled_at, tr)" by (cases ?inner)
      have "fetchJson_timed net t k url retries =
         (res, settled_at,
          [(t, Effect (SetAbortTimer 10000)), (t, Effect (Fetch (get_request url))),
           (t + h, Effect (Warn url (retries - 1) (of_int ((4 - retries) * 1000)))),
           (t + h, Effect (Sleep (of_int ((4 - retries) * 1000))))]
          @ take 2 tr
          @ [(t + h + timer_wait (of_int ((4 - retries) * 1000)), ClearAbortTimer)]
          @ drop 2 tr)"
        using True Responds i by (simp add: fetchJson_timed.simps [of net t k])
      moreover have "fetchJson (untimed net) k url retries =
         (fst (fetchJson (untimed net) (Suc k) url (retries - 1)),
          [SetAbortTimer 10000, Fetch (get_request url),
           Warn url (retries - 1) (of_int ((4 - retries) * 1000)),
           Sleep (of_int ((4 - retries) * 1000))] @ snd (fetchJson (untimed net) (Suc k) url (retries - 1)))"
        using True u by (simp add: fetchJson_retry)
      ultimately show ?thesis using ih i by (simp add: effects_take_drop)
    next
      case False
      then show ?thesis using Responds u
        by (auto simp: fetchJson_timed.simps [of net t k] fetchJson.simps [of "untimed net" k]
            split: sum.splits)
    qed
  qed
qed

lemma fetchJson_timed_body:
  assumes "net (get_request url) k = Answers h r b" and "h < 10000"
    and "status r = 200" and "json r = Inr v"
  shows "fetchJson_timed net t k url retries =
     (Inr v, t + h + b,
      [(t, Effect (SetAbortTimer 10000)), (t, Effect (Fetch (get_request url))),
       (t + h, ClearAbortTimer)])"
  using assms by (simp add: fetchJson_timed.simps [of net t k] fetch_under_signal_def ok_def)

lemma fetchJson_timed_silent:
  assumes "net (get_request url) k = Silent"
  shows "fetchJson_timed net t k url retries =
     (Inl (ApiError (timeout_message url) (Some 0) (Some url)), t + 10000,
      [(t, Effect (SetAbortTimer 10000)), (t, Effect (Fetch (get_request url))),
       (t + 10000, ClearAbortTimer)])"
  using assms by (simp add: fetchJson_timed.simps [of net t k] fetch_under_signal_def)

section \<open>Claims about the retry policy\<close>

lemma fetchJson_delays_cases:
  "snd (fetchJson net k url retries) = [SetAbortTimer 10000, Fetch (get_request url)]
   \<or> (0 < retries \<and> snd (fetchJson net k url retries) =
        [SetAbortTimer 10000, Fetch (get_request url),
         Warn url (retries - 1) (of_int ((4 - retries) * 1000)),
         Sleep (of_int ((4 - retries) * 1000))] @ snd (fetchJson net (Suc k) url (retries - 1)))"
  by (simp add: fetchJson.simps [of net k] split: fetch_result.splits sum.splits prod.splits)

lemma postJson_delays_cases:
  "snd (postJson net k url body retries) = [SetAbortTimer 10000, Fetch (post_request url body)]
   \<or> (0 < retries \<and> snd (postJson net k url body retries) =
        [SetAbortTimer 10000, Fetch (post_request url body),
         Warn url (retries - 1) (Math_pow2 (3 - retries) * 1000),
         Sleep (Math_pow2 (3 - retries) * 1000)] @ snd (postJson net (Suc k) url body (retries - 1)))"
  by (simp add: postJson.simps [of net k] split: fetch_result.splits sum.splits prod.splits)

lemma fetchJson_default_schedule:
  "delays (snd (fetchJson net 0 url 3)) = take (attempts (snd (fetchJson net 0 url 3)) - 1) [1000, 2000, 3000]"
  using fetchJson_delays_cases [of net 0 url 3] fetchJson_delays_cases [of net 1 url 2]
    fetchJson_delays_cases [of net 2 url 1] fetchJson_delays_cases [of net 3 url 0]
  by (auto simp: numeral_2_eq_2 numeral_3_eq_3)

lemma postJson_default_schedule:
  "delays (snd (postJson net 0 url body 3)) = take (attempts (snd (postJson net 0 url body 3)) - 1) [1000, 2000, 4000]"
  using postJson_delays_cases [of net 0 url body 3] postJson_delays_cases [of net 1 url body 2]
    postJson_delays_cases [of net 2 url body 1] postJson_delays_cases [of net 3 url body 0]
  by (auto simp: numeral_2_eq_2 numeral_3_eq_3 Math_pow2_def)

lemma always_5xx_server_down [simp]: "always_5xx server_down req"
  by (simp add: always_5xx_def server_down_def)

text \<open>
  Claim C1, as amended. When every response to the request has a status of 500 or more,
  a call with a non-negative budget \<open>retries\<close> sends exactly \<open>1 + retries\<close> requests
  and then fails with an \<open>ApiError\<close> that carries a status of 500 or more and the URL;
  this holds for \<open>fetchJson\<close> and for \<open>postJson\<close>. For a budget of at most 3 (the
  default 3 is the only budget the repository uses) that number is
  \<open>min (1 + retries) 4\<close> and at most 4.
\<close>
theorem attempts_one_plus_retries:
  assumes "always_5xx net (get_request url)" and "always_5xx net (post_request url body)"
    and "0 \<le> retries"
  shows "attempts (snd (fetchJson net 0 url retries)) = nat (1 + retries)
     \<and> (\<exists>e. fst (fetchJson net 0 url retries) = Inl e \<and> ServerError url e)
     \<and> attempts (snd (postJson net 0 url body retries)) = nat (1 + retries)
     \<and> (\<exists>e. fst (postJson net 0 url body retries) = Inl e \<and> ServerError url e)
     \<and> (retries \<le> 3 \<longrightarrow>
          attempts (snd (fetchJson net 0 url retries)) = nat (min (1 + retries) 4)
          \<and> attempts (snd (fetchJson net 0 url retries)) \<le> 4
          \<and> attempts (snd (postJson net 0 url body retries)) = nat (min (1 + retries) 4)
          \<and> attempts (snd (postJson net 0 url body retries)) \<le> 4)"
proof -
  from assms(3) obtain n where n: "retries = int n"
    using nonneg_int_cases by blast
  have f: "attempts (snd (fetchJson net 0 url retries)) = n + 1"
    unfolding n by (rule fetchJson_5xx_attempts [OF assms(1)])
  have p: "attempts (snd (postJson net 0 url body retries)) = n + 1"
    unfolding n by (rule postJson_5xx_attempts [OF assms(2)])
  have fe: "\<exists>e. fst (fetchJson net 0 url retries) = Inl e \<and> ServerError url e"
    unfolding n by (rule fetchJson_5xx_result [OF assms(1)])
  have pe: "\<exists>e. fst (postJson net 0 url body retries) = Inl e \<and> ServerError url e"
    unfolding n by (rule postJson_5xx_result [OF assms(2)])
  have "nat (1 + retries) = n + 1" using n by simp
  moreover have "retries \<le> 3 \<Longrightarrow> nat (min (1 + retries) 4) = n + 1 \<and> n + 1 \<le> 4"
    using n by simp
  ultimately show ?thesis using f p fe pe by simp
qed

text \<open>The upstream that always answers 503, with the default budget: four attempts.\<close>
theorem attempts_one_plus_retries_witness:
  "always_5xx server_down (get_request example_url)
   \<and> always_5xx server_down (post_request example_url ())
   \<and> attempts (snd (fetchJson server_down 0 example_url 3)) = 4
   \<and> attempts (snd (postJson server_down 0 example_url () 3)) = 4
   \<and> (\<exists>e. fst (fetchJson server_down 0 example_url 3) = Inl e \<and> ServerError example_url e)"
  using attempts_one_plus_retries [of server_down example_url "()" 3] by simp

text \<open>
  Claim C1 as stated fails: with a budget of 4 the upstream that always answers 503 is
  asked five times, not \<open>min (1 + 4) 4 = 4\<close> times.
\<close>
theorem attempts_exceed_four:
  "always_5xx server_down (get_request example_url)
   \<and> attempts (snd (fetchJson server_down 0 example_url 4)) = 5
   \<and> attempts (snd (fetchJson server_down 0 example_url 4)) \<noteq> nat (min (1 + 4) 4)"
  using fetchJson_5xx_attempts [of server_down example_url 0 4] by simp

text \<open>
  Claim C2. With the default budget of 3, the waits of \<open>fetchJson\<close> between attempts are
  the first of 1000, 2000, 3000 ms, one per retry, and those of \<open>postJson\<close> the first of
  1000, 2000, 4000 ms; when every response has a status of 500 or more all three retries
  happen and the waits are exactly 1000, 2000, 3000 ms and 1000, 2000, 4000 ms.
\<close>
theorem default_backoff_delays:
  "delays (snd (fetchJson net 0 url 3))
     = take (attempts (snd (fetchJson net 0 url 3)) - 1) [1000, 2000, 3000]
   \<and> delays (snd (postJson net 0 url body 3))
     = take (attempts (snd (postJson net 0 url body 3)) - 1) [1000, 2000, 4000]
   \<and> (always_5xx net (get_request url) \<longrightarrow>
        delays (snd (fetchJson net 0 url 3)) = [1000, 2000, 3000])
   \<and> (always_5xx net (post_request url body) \<longrightarrow>
        delays (snd (postJson net 0 url body 3)) = [1000, 2000, 4000])"
  using fetchJson_default_schedule [of net url] postJson_default_schedule [of net url body]
    fetchJson_default_delays [of net url 0] postJson_default_delays [of net url body 0]
  by blast

text \<open>The upstream that always answers 503.\<close>
theorem default_backoff_delays_witness:
  "always_5xx server_down (get_request example_url)
   \<and> always_5xx server_down (post_request example_url ())
   \<and> delays (snd (fetchJson server_down 0 example_url 3)) = [1000, 2000, 3000]
   \<and> delays (snd (postJson server_down 0 example_url () 3)) = [1000, 2000, 4000]"
  using default_backoff_delays [of server_down example_url "()"]
    always_5xx_server_down [of "get_request example_url"]
    always_5xx_server_down [of "post_request example_url ()"]
  by blast

text \<open>
  Claim C3. If the first response has status 429, \<open>fetchJson\<close> and \<open>postJson\<close> fail with
  the rate-limit \<open>ApiError\<close> that carries the status 429 and the URL, after exactly one
  request, whatever the budget \<open>retries\<close>.
\<close>
theorem rate_limit_not_retried:
  "(net (get_request url) 0 = Resolves r \<and> status r = 429 \<longrightarrow>
      fst (fetchJson net 0 url retries) = Inl (ApiError rate_limit_message (Some 429) (Some url))
      \<and> attempts (snd (fetchJson net 0 url retries)) = 1)
   \<and> (net (post_request url body) 0 = Resolves r' \<and> status r' = 429 \<longrightarrow>
      fst (postJson net 0 url body retries) = Inl (ApiError rate_limit_message (Some 429) (Some url))
      \<and> attempts (snd (postJson net 0 url body retries)) = 1)"
  by (simp add: fetchJson_429 postJson_429)

text \<open>The upstream that answers 429, with three retries left.\<close>
theorem rate_limit_not_retried_witness:
  "rate_limited (get_request example_url) 0
      = Resolves \<lparr>status = 429, statusText = lit ''Too Many Requests'', json = Inl (lit ''Unexpected end of JSON input'')\<rparr>
   \<and> fst (fetchJson rate_limited 0 example_url 3)
      = Inl (ApiError rate_limit_message (Some 429) (Some example_url))
   \<and> attempts (snd (fetchJson rate_limited 0 example_url 3)) = 1
   \<and> fst (postJson rate_limited 0 example_url () 3)
      = Inl (ApiError rate_limit_message (Some 429) (Some example_url))
   \<and> attempts (snd (postJson rate_limited 0 example_url () 3)) = 1"
  using rate_limit_not_retried [of rate_limited example_url
      "\<lparr>status = 429, statusText = lit ''Too Many Requests'', json = Inl (lit ''Unexpected end of JSON input'')\<rparr>" 3 "()"
      "\<lparr>status = 429, statusText = lit ''Too Many Requests'', json = Inl (lit ''Unexpected end of JSON input'')\<rparr>"]
  by (simp add: rate_limited_def)

lemma aborts_at_hangs_after [simp]: "aborts_at (hangs_after n) req n"
  by (simp add: aborts_at_def hangs_after_def)

text \<open>
  Claim C4 fails on the code. An upstream sends the headers of a 200 response after 100 ms
  and completes the body 13700 ms later. \<open>fetchJson\<close> clears the timer of 10000 ms when
  the headers are there, 100 ms after the request, and its promise resolves with the body
  13800 ms after the request: the attempt outlasts the 10 seconds and no timeout error is
  thrown.
\<close>
theorem slow_body_is_not_timed_out:
  "fetchJson_timed slow_body 0 0 example_url 3 =
     (Inr (), 13800,
      [(0, Effect (SetAbortTimer 10000)), (0, Effect (Fetch (get_request example_url))),
       (100, ClearAbortTimer)])"
  by (simp add: fetchJson_timed_body [where h = 100 and b = 13700] slow_body_def)

lemma http_statuses_hangs_after [simp]: "http_statuses (hangs_after n) req"
  by (simp add: http_statuses_def hangs_after_def)

text \<open>
  Claim C8. A call of \<open>fetchJson\<close> or \<open>postJson\<close> whose attempt is aborted by the signal
  fails with an \<open>ApiError\<close> whose \<open>statusCode\<close> is 0 and whose \<open>endpoint\<close> is the
  requested URL. Conversely, when no response has the status 0, a failure with
  \<open>statusCode\<close> 0 is that timeout error, and the last attempt was aborted: the status
  code alone tells a timeout from a failure with an HTTP status.
\<close>
theorem timeout_status_code_zero:
  "(aborts_at net (get_request url) j \<and> int j \<le> retries \<longrightarrow>
      (\<exists>e. fst (fetchJson net 0 url retries) = Inl e
            \<and> statusCode e = Some 0 \<and> endpoint e = Some url \<and> name e = lit ''ApiError''))
   \<and> (aborts_at net (post_request url body) j \<and> int j \<le> retries \<longrightarrow>
      (\<exists>e. fst (postJson net 0 url body retries) = Inl e
            \<and> statusCode e = Some 0 \<and> endpoint e = Some url \<and> name e = lit ''ApiError''))
   \<and> (http_statuses net (get_request url) \<and> fst (fetchJson net 0 url retries) = Inl err
        \<and> statusCode err = Some 0 \<longrightarrow>
      err = ApiError (timeout_message url) (Some 0) (Some url)
      \<and> (\<exists>msg. net (get_request url) (attempts (snd (fetchJson net 0 url retries)) - 1)
            = Rejects (lit ''AbortError'') msg))
   \<and> (http_statuses net (post_request url body) \<and> fst (postJson net 0 url body retries) = Inl err'
        \<and> statusCode err' = Some 0 \<longrightarrow>
      err' = ApiError (timeout_message url) (Some 0) (Some url)
      \<and> (\<exists>msg. net (post_request url body) (attempts (snd (postJson net 0 url body retries)) - 1)
            = Rejects (lit ''AbortError'') msg))"
proof -
  have a: "aborts_at net (get_request url) j \<and> int j \<le> retries \<longrightarrow>
      (\<exists>e. fst (fetchJson net 0 url retries) = Inl e
            \<and> statusCode e = Some 0 \<and> endpoint e = Some url \<and> name e = lit ''ApiError'')"
    using fetchJson_aborts_at [of net url j retries] by simp
  have b: "aborts_at net (post_request url body) j \<and> int j \<le> retries \<longrightarrow>
      (\<exists>e. fst (postJson net 0 url body retries) = Inl e
            \<and> statusCode e = Some 0 \<and> endpoint e = Some url \<and> name e = lit ''ApiError'')"
    using postJson_aborts_at [of net url body j retries] by simp
  have c: "http_statuses net (get_request url) \<and> fst (fetchJson net 0 url retries) = Inl err
        \<and> statusCode err = Some 0 \<longrightarrow>
      err = ApiError (timeout_message url) (Some 0) (Some url)
      \<and> (\<exists>msg. net (get_request url) (attempts (snd (fetchJson net 0 url retries)) - 1)
            = Rejects (lit ''AbortError'') msg)"
  proof (cases err)
    case (ApiError m sc ep)
    then show ?thesis using fetchJson_status0 [of net url 0 retries m ep] by auto
  next
    case (Error nm m)
    then show ?thesis by simp
  qed
  have d: "http_statuses net (post_request url body) \<and> fst (postJson net 0 url body retries) = Inl err'
        \<and> statusCode err' = Some 0 \<longrightarrow>
      err' = ApiError (timeout_message url) (Some 0) (Some url)
      \<and> (\<exists>msg. net (post_request url body) (attempts (snd (postJson net 0 url body retries)) - 1)
            = Rejects (lit ''AbortError'') msg)"
  proof (cases err')
    case (ApiError m sc ep)
    then show ?thesis using postJson_status0 [of net url body 0 retries m ep] by auto
  next
    case (Error nm m)
    then show ?thesis by simp
  qed
  from a b c d show ?thesis by blast
qed

text \<open>The upstream that never answers.\<close>
theorem timeout_status_code_zero_witness:
  "aborts_at (hangs_after 0) (get_request example_url) 0
   \<and> http_statuses (hangs_after 0) (get_request example_url)
   \<and> fst (fetchJson (hangs_after 0) 0 example_url 3)
       = Inl (ApiError (timeout_message example_url) (Some 0) (Some example_url))
   \<and> fst (postJson (hangs_after 0) 0 example_url () 3)
       = Inl (ApiError (timeout_message example_url) (Some 0) (Some example_url))
   \<and> hangs_after 0 (get_request example_url) (attempts (snd (fetchJson (hangs_after 0) 0 example_url 3)) - 1)
       = Rejects (lit ''AbortError'') (lit ''This operation was aborted'')"
  using timeout_status_code_zero [of "hangs_after 0" example_url 0 3 "()"
     "ApiError (timeout_message example_url) (Some 0) (Some example_url)"
     "ApiError (timeout_message example_url) (Some 0) (Some example_url)"]
    fetchJson_aborts_at [of "hangs_after 0" example_url 0 3]
    postJson_aborts_at [of "hangs_after 0" example_url "()" 0 3]
  by (simp add: hangs_after_def)

section \<open>URL construction\<close>

lemma serialize_Nil_iff [simp]: "serialize ps = [] \<longleftrightarrow> ps = []"
  by (cases ps rule: serialize.cases) simp_all

lemma update_simps [simp]:
  "searchParams (update ps u) = ps"
  "url_head (update ps u) = url_head u"
  "url_fragment (update ps u) = url_fragment u"
  "url_query (update ps u) = (if ps = [] then None else Some (serialize ps))"
  "update ps (update qs u) = update ps u"
  by (simp_all add: update_def)

lemma fold_append_param:
  "fold (\<lambda>v. append_param key v) vs u =
     (if vs = [] then u else update (searchParams u @ map (\<lambda>v. (key, v)) vs) u)"
  by (induction vs arbitrary: u) (simp_all add: append_param_def)

lemma set_param_fresh:
  "key \<notin> fst ` set (searchParams u) \<Longrightarrow> set_param key v u = update (searchParams u @ [(key, v)]) u"
  by (simp add: set_param_def)

lemma add_entry_fresh:
  assumes "key \<notin> fst ` set (searchParams u)"
  shows "add_entry (key, value) u =
     (if pairs_of (key, value) = [] then u else update (searchParams u @ pairs_of (key, value)) u)"
  using assms by (cases "value") (simp_all add: set_param_fresh fold_append_param)

lemma fst_pairs_of: "fst ` set (pairs_of (key, value)) \<subseteq> {key}"
  by (cases "value") auto

lemma fold_add_entry:
  assumes "distinct (map fst params)"
    and "\<forall>key \<in> fst ` set params. key \<notin> fst ` set (searchParams u)"
  shows "fold add_entry params u =
     (if expected_pairs params = [] then u
      else update (searchParams u @ expected_pairs params) u)"
  using assms
proof (induction params arbitrary: u)
  case Nil
  then show ?case by (simp add: expected_pairs_def)
next
  case (Cons p params)
  obtain key "value" where p: "p = (key, value)" by (cases p)
  have fresh: "key \<notin> fst ` set (searchParams u)" using Cons.prems(2) p by simp
  let ?u = "add_entry (key, value) u"
  have sp: "searchParams ?u = searchParams u @ pairs_of (key, value)"
    by (simp add: add_entry_fresh [OF fresh])
  have d: "distinct (map fst params)" using Cons.prems(1) by simp
  have "\<forall>k \<in> fst ` set params. k \<notin> fst ` set (searchParams ?u)"
  proof
    fix k assume k: "k \<in> fst ` set params"
    then have "k \<noteq> key" using Cons.prems(1) p by auto
    moreover have "k \<notin> fst ` set (searchParams u)" using Cons.prems(2) k by auto
    ultimately show "k \<notin> fst ` set (searchParams ?u)"
      using fst_pairs_of [of key "value"] unfolding sp by auto
  qed
  from Cons.IH [OF d this]
  have "fold add_entry params ?u =
     (if expected_pairs params = [] then ?u
      else update (searchParams ?u @ expected_pairs params) ?u)" .
  moreover have "expected_pairs (p # params) = pairs_of (key, value) @ expected_pairs params"
    by (simp add: p expected_pairs_def)
  moreover have "fold add_entry (p # params) u = fold add_entry params ?u"
    by (simp add: p)
  ultimately show ?case
    by (cases "pairs_of (key, value) = []"; cases "expected_pairs params = []")
       (simp_all add: add_entry_fresh [OF fresh])
qed


lemma toString_update:
  "toString (update ps u) =
     url_head u @ (if ps = [] then [] else 63 # serialize ps)
     @ (case url_fragment u of None \<Rightarrow> [] | Some f \<Rightarrow> 35 # f)"
  by (simp add: toString_def)

lemma expected_pairs_names:
  assumes "distinct (map fst params)" and "(key, value) \<in> set params"
  shows "filter (\<lambda>p. fst p = key) (expected_pairs params) = pairs_of (key, value)"
  using assms
proof (induction params)
  case Nil
  then show ?case by simp
next
  case (Cons p params)
  obtain k v where p: "p = (k, v)" by (cases p)
  have other: "\<And>k' v'. k' \<noteq> key \<Longrightarrow> filter (\<lambda>p. fst p = key) (pairs_of (k', v')) = []"
  proof -
    fix k' :: jsstring and v' assume "k' \<noteq> key"
    then show "filter (\<lambda>p. fst p = key) (pairs_of (k', v')) = []"
      using fst_pairs_of [of k' v'] by (auto simp: filter_empty_conv)
  qed
  have same: "filter (\<lambda>p. fst p = key) (pairs_of (key, value)) = pairs_of (key, value)"
    using fst_pairs_of [of key "value"] by (auto simp: filter_id_conv)
  show ?case
  proof (cases "k = key")
    case True
    then have "key \<notin> fst ` set params" using Cons.prems(1) p by auto
    then have v: "v = value" using Cons.prems(2) p True by force
    have "filter (\<lambda>p. fst p = key) (expected_pairs params) = []"
      using \<open>key \<notin> fst ` set params\<close>
    proof (induction params)
      case Nil
      then show ?case by (simp add: expected_pairs_def)
    next
      case (Cons q qs)
      obtain a b where q: "q = (a, b)" by (cases q)
      then have "a \<noteq> key" using Cons.prems by auto
      then show ?case using Cons q other [of a b] by (auto simp: expected_pairs_def)
    qed
    then show ?thesis using p True v same by (simp add: expected_pairs_def)
  next
    case False
    then have "(key, value) \<in> set params" using Cons.prems(2) p by auto
    moreover have "distinct (map fst params)" using Cons.prems(1) by simp
    ultimately have "filter (\<lambda>p. fst p = key) (expected_pairs params) = pairs_of (key, value)"
      by (rule Cons.IH [rotated])
    then show ?thesis using p False other [of k v] by (simp add: expected_pairs_def)
  qed
qed





lemma buildUrl_throws:
  "newURL parser (base @ path) = Inl err \<Longrightarrow> buildUrl parser base path params = Inl err"
  by (simp add: buildUrl_def)

lemma buildUrl_appended:
  assumes "newURL parser (base @ path) = Inr u"
    and "\<forall>key \<in> fst ` set params. key \<notin> fst ` set (searchParams u)"
    and "distinct (map fst params)"
  shows "buildUrl parser base path params =
     Inr (toString (if expected_pairs params = [] then u
                    else update (searchParams u @ expected_pairs params) u))"
  using fold_add_entry [OF assms(3) assms(2)] assms(1) by (simp add: buildUrl_def)

section \<open>Claims about URL construction\<close>

text \<open>
  Claim C5. When the platform's parser accepts \<open>base + path\<close> and no parameter name
  occurs in a query that this URL has of its own, \<open>buildUrl\<close> returns the serialisation of
  that URL with the specified pairs appended to its query, in the order of the entries:
  nothing for an absent value, one pair for a scalar, one pair per element for a sequence
  (the same name repeated, not joined by commas). No name with an absent value occurs in
  the query.
\<close>
theorem buildUrl_pairs_as_specified:
  assumes "newURL parser (base @ path) = Inr u"
    and "\<forall>key \<in> fst ` set params. key \<notin> fst ` set (searchParams u)"
    and "distinct (map fst params)"
  shows "buildUrl parser base path params =
           Inr (if expected_pairs params = [] then toString u
                else url_head u @ 63 # serialize (searchParams u @ expected_pairs params)
                     @ (case url_fragment u of None \<Rightarrow> [] | Some f \<Rightarrow> 35 # f))
         \<and> (\<forall>key. (key, Undefined) \<in> set params \<longrightarrow>
               key \<notin> fst ` set (searchParams u @ expected_pairs params))"
proof -
  have "\<And>key. (key, Undefined) \<in> set params \<Longrightarrow> key \<notin> fst ` set (searchParams u @ expected_pairs params)"
  proof
    fix key
    assume a: "(key, Undefined) \<in> set params"
      and b: "key \<in> fst ` set (searchParams u @ expected_pairs params)"
    have "key \<in> fst ` set params" using a by force
    then have "key \<notin> fst ` set (searchParams u)" using assms(2) by blast
    then have c: "key \<in> fst ` set (expected_pairs params)" using b by auto
    have "filter (\<lambda>p. fst p = key) (expected_pairs params) = []"
      using expected_pairs_names [OF assms(3) a] by simp
    then show False using c by (auto simp: filter_empty_conv)
  qed
  then show ?thesis
    using buildUrl_appended [OF assms] by (simp add: toString_update)
qed

text \<open>
  The example of the specification: base \<open>https://example.com\<close>, path \<open>/search\<close> and the
  parameters \<open>q\<close>, \<open>limit\<close>, \<open>tags\<close>, \<open>missing\<close>.
\<close>
theorem buildUrl_pairs_as_specified_witness:
  "newURL accepting_parser (lit ''https://example.com'' @ lit ''/search'')
     = Inr \<lparr>url_head = lit ''https://example.com/search'', url_query = None,
            url_fragment = None, searchParams = []\<rparr>
   \<and> distinct (map fst example_params)
   \<and> buildUrl accepting_parser (lit ''https://example.com'') (lit ''/search'') example_params
     = Inr (lit ''https://example.com/search?q=nurse&limit=10&tags=a&tags=b'')
   \<and> lit ''missing'' \<notin> fst ` set (expected_pairs example_params)"
proof -
  let ?u = "\<lparr>url_head = lit ''https://example.com/search'', url_query = None,
            url_fragment = None, searchParams = []\<rparr>"
  have h1: "newURL accepting_parser (lit ''https://example.com'' @ lit ''/search'') = Inr ?u"
    by code_simp
  have h2: "\<forall>key \<in> fst ` set example_params. key \<notin> fst ` set (searchParams ?u)" by simp
  have h3: "distinct (map fst example_params)" by code_simp
  have h4: "(lit ''missing'', Undefined) \<in> set example_params" by (simp add: example_params_def)
  have e: "(if expected_pairs example_params = [] then toString ?u
                else url_head ?u @ 63 # serialize (searchParams ?u @ expected_pairs example_params)
                     @ (case url_fragment ?u of None \<Rightarrow> [] | Some f \<Rightarrow> 35 # f))
     = lit ''https://example.com/search?q=nurse&limit=10&tags=a&tags=b''"
    by code_simp
  note t = buildUrl_pairs_as_specified [OF h1 h2 h3]
  have b: "buildUrl accepting_parser (lit ''https://example.com'') (lit ''/search'') example_params
     = Inr (lit ''https://example.com/search?q=nurse&limit=10&tags=a&tags=b'')"
    using t [THEN conjunct1] unfolding e .
  have "lit ''missing'' \<notin> fst ` set (searchParams ?u @ expected_pairs example_params)"
    using t [THEN conjunct2] h4 by blast
  then have c: "lit ''missing'' \<notin> fst ` set (expected_pairs example_params)" by simp
  show ?thesis using h1 h3 b c by blast
qed



section \<open>Truncation\<close>

lemma length_lit [simp]: "length (lit s) = length s"
  by (simp add: lit_def)

lemma length_truncation_marker [simp]: "length truncation_marker = 25"
  by (simp add: truncation_marker_def)

lemma last_truncation_marker: "last truncation_marker = 93"
  by (simp add: truncation_marker_def lit_def)

lemma ends_with_last:
  assumes "ends_with s m" and "m \<noteq> []"
  shows "last s = last m"
proof -
  from assms(1) have "drop (length s - length m) s = m" by (simp add: ends_with_def)
  then have "last (drop (length s - length m) s) = last m" by simp
  moreover have "length s - length m < length s"
    using assms by (cases m) (auto simp: ends_with_def)
  ultimately show ?thesis by (simp add: last_drop)
qed

lemma ends_with_append [simp]: "ends_with (s @ m) m"
  by (simp add: ends_with_def)

lemma truncateIfNeeded_short: "length text \<le> CHARACTER_LIMIT \<Longrightarrow> truncateIfNeeded text = text"
  by (simp add: truncateIfNeeded_def)

lemma truncateIfNeeded_long:
  "CHARACTER_LIMIT < length text \<Longrightarrow>
     truncateIfNeeded text = take CHARACTER_LIMIT text @ truncation_marker"
  by (simp add: truncateIfNeeded_def)

lemma length_truncateIfNeeded: "length (truncateIfNeeded text) \<le> CHARACTER_LIMIT + 25"
  by (simp add: truncateIfNeeded_def)

section \<open>Taxonomy handlers\<close>

lemma fetchJson_ok:
  assumes "net (get_request url) k = Resolves r" and "status r = 200" and "json r = Inr v"
  shows "fst (fetchJson net k url retries) = Inr v"
  using assms by (simp add: fetchJson.simps [of net k] ok_def)

lemma taxonomyFetch_upstream [simp]: "fst (taxonomyFetch (taxonomy_upstream items) url) = Inr items"
  by (simp add: taxonomyFetch_def taxonomy_upstream_def fetchJson_ok)

lemma Promise_all_resolved [simp]:
  "Promise_all [Inr a, Inr b, Inr c, Inr d] = [Inr [a, b, c, d]]"
  by (simp add: Promise_all_def)

lemma concept_settled_rejected:
  "structuredContent (concept_settled concept_id (Inl err)) = None
   \<and> (isError (concept_settled concept_id (Inl err))
       \<or> concept_settled concept_id (Inl err) = not_found concept_id)"
  by (simp add: not_found_def)

lemma concept_of_relations [simp]:
  "broader (concept_of item b n r) = Some (map mapItem b)"
  "narrower (concept_of item b n r) = Some (map mapItem n)"
  "related (concept_of item b n r) = Some (map mapItem r)"
  by (simp_all add: concept_of_def)

lemma accepting_buildUrl:
  "scheme_start (base @ path) \<Longrightarrow> \<exists>url. buildUrl accepting_parser base path params = Inr url"
  by (simp add: buildUrl_def newURL_def accepting_parser_def)

lemma Promise_all_rejected:
  assumes "Inl e \<in> set rs" and "x \<in> set (Promise_all rs)"
  shows "\<exists>e'. x = Inl e' \<and> Inl e' \<in> set rs"
proof -
  have "isl (Inl e :: js_error + 'a)" by simp
  with assms(1) have "\<exists>r \<in> set rs. isl r" by blast
  then have "filter isl rs \<noteq> []" by (simp add: filter_empty_conv)
  then obtain r where r: "r \<in> set rs" "isl r" "x = Inl (projl r)"
    using assms(2) by (auto simp: Promise_all_def)
  then show ?thesis by (cases r) auto
qed

lemma concept_settled_found:
  "structuredContent (concept_settled concept_id (Inr [item # items, b, n, r])) = Some (concept_of item b n r)
   \<and> \<not> isError (concept_settled concept_id (Inr [item # items, b, n, r]))"
  by simp

lemma concept_settled_empty:
  "concept_settled concept_id (Inr [[], b, n, r]) = not_found concept_id"
  by simp

lemma taxonomy_url_built:
  "\<exists>url. buildTaxonomyUrl accepting_parser concepts_path params = Inr url"
proof -
  have "scheme_start (TAXONOMY_BASE_URL @ concepts_path)" by code_simp
  then show ?thesis unfolding buildTaxonomyUrl_def by (rule accepting_buildUrl)
qed

lemma af_get_taxonomy_concept_upstream:
  "af_get_taxonomy_concept accepting_parser (taxonomy_upstream items) concept_id
     = [Inr (concept_settled concept_id (Inr [items, items, items, items]))]"
proof -
  obtain u1 where u1: "getConceptUrl accepting_parser concept_id = Inr u1"
    unfolding getConceptUrl_def using taxonomy_url_built by blast
  obtain u2 where u2: "getRelationUrl accepting_parser concept_id (lit ''broader'') = Inr u2"
    unfolding getRelationUrl_def using taxonomy_url_built by blast
  obtain u3 where u3: "getRelationUrl accepting_parser concept_id (lit ''narrower'') = Inr u3"
    unfolding getRelationUrl_def using taxonomy_url_built by blast
  obtain u4 where u4: "getRelationUrl accepting_parser concept_id (lit ''related'') = Inr u4"
    unfolding getRelationUrl_def using taxonomy_url_built by blast
  show ?thesis by (simp add: af_get_taxonomy_concept_def u1 u2 u3 u4)
qed

lemma af_list_taxonomy_types_upstream:
  "items \<noteq> [] \<Longrightarrow>
   af_list_taxonomy_types accepting_parser (taxonomy_upstream items) type_name include_deprecated
     = Inr \<lparr>text_block =
               take CHARACTER_LIMIT
                 (list_header (length (active_concepts include_deprecated (map mapItem items))) type_name
                  @ join_lines (map concept_line (active_concepts include_deprecated (map mapItem items)))),
             structuredContent =
               Some \<lparr>list_type = type_name,
                     count = length (active_concepts include_deprecated (map mapItem items)),
                     concepts = active_concepts include_deprecated (map mapItem items)\<rparr>,
             isError = False\<rparr>"
proof -
  assume ne: "items \<noteq> []"
  obtain u where u: "buildTaxonomyUrl accepting_parser concepts_path
             [(lit ''type'', Str type_name),
              (lit ''include-deprecated'', Str (if include_deprecated then lit ''true'' else lit ''false'')),
              (lit ''limit'', Num 500)] = Inr u"
    using taxonomy_url_built by blast
  show ?thesis using ne by (simp add: af_list_taxonomy_types_def u Let_def)
qed

lemma example_concept_urls:
  "getConceptUrl accepting_parser (lit ''i46j_HmG_v64'')
     = Inr (lit ''https://taxonomy.api.jobtechdev.se/v1/taxonomy/main/concepts?id=i46j_HmG_v64&include-deprecated=true'')"
  "getRelationUrl accepting_parser (lit ''i46j_HmG_v64'') (lit ''broader'')
     = Inr (lit ''https://taxonomy.api.jobtechdev.se/v1/taxonomy/main/concepts?related-ids=i46j_HmG_v64&relation=broader&include-deprecated=true'')"
  "getRelationUrl accepting_parser (lit ''i46j_HmG_v64'') (lit ''narrower'')
     = Inr (lit ''https://taxonomy.api.jobtechdev.se/v1/taxonomy/main/concepts?related-ids=i46j_HmG_v64&relation=narrower&include-deprecated=true'')"
  "getRelationUrl accepting_parser (lit ''i46j_HmG_v64'') (lit ''related'')
     = Inr (lit ''https://taxonomy.api.jobtechdev.se/v1/taxonomy/main/concepts?related-ids=i46j_HmG_v64&relation=related&include-deprecated=true'')"
  by code_simp+

lemma long_text:
  "join_lines (concept_lines (concept_of long_item b n r))
     = lit ''## '' @ replicate 50000 97 @ [10]
       @ join_lines (tl (concept_lines (concept_of long_item b n r)))"
  by (simp add: concept_lines_def concept_of_def mapItem_def long_item_def)

section \<open>Claims about the handlers\<close>

text \<open>
  Claim C6, as amended. \<open>truncateIfNeeded\<close> returns a text of at most 50000 code units
  unchanged, and otherwise its first 50000 code units followed by the marker, so the
  result ends with the marker and has 50025 code units. The text of a result of the
  handler of \<open>af_get_taxonomy_concept\<close> that carries a concept has at most 50000 code
  units.
\<close>
theorem truncateIfNeeded_appends_marker:
  "(length str \<le> CHARACTER_LIMIT \<longrightarrow> truncateIfNeeded str = str)
   \<and> (CHARACTER_LIMIT < length str \<longrightarrow>
        truncateIfNeeded str = take CHARACTER_LIMIT str @ truncation_marker
        \<and> ends_with (truncateIfNeeded str) truncation_marker
        \<and> length (truncateIfNeeded str) = CHARACTER_LIMIT + 25)
   \<and> length (truncateIfNeeded str) \<le> CHARACTER_LIMIT + 25
   \<and> CHARACTER_LIMIT = 50000
   \<and> length (text_block (concept_settled concept_id
                 (Inr [item # items, broaderRes, narrowerRes, relatedRes]))) \<le> CHARACTER_LIMIT"
  by (simp add: truncateIfNeeded_short truncateIfNeeded_long length_truncateIfNeeded)
     (simp add: CHARACTER_LIMIT_def)

text \<open>A text of 50001 code units.\<close>
theorem truncateIfNeeded_appends_marker_witness:
  "CHARACTER_LIMIT < length (replicate 50001 (97 :: 16 word))
   \<and> truncateIfNeeded (replicate 50001 97) = replicate 50000 97 @ truncation_marker
   \<and> ends_with (truncateIfNeeded (replicate 50001 97)) truncation_marker
   \<and> length (truncateIfNeeded (replicate 50001 97)) = 50025"
proof -
  have h: "CHARACTER_LIMIT < length (replicate 50001 (97 :: 16 word))"
    by (simp add: CHARACTER_LIMIT_def)
  have "truncateIfNeeded (replicate 50001 97)
          = take CHARACTER_LIMIT (replicate 50001 97) @ truncation_marker
        \<and> ends_with (truncateIfNeeded (replicate 50001 97)) truncation_marker
        \<and> length (truncateIfNeeded (replicate 50001 97)) = CHARACTER_LIMIT + 25"
    using h truncateIfNeeded_appends_marker [where str = "replicate 50001 97" and concept_id = "[]"
        and item = nurse_item and items = "[]" and broaderRes = "[]" and narrowerRes = "[]"
        and relatedRes = "[]"]
    by blast
  moreover have "take CHARACTER_LIMIT (replicate 50001 (97 :: 16 word)) = replicate 50000 97"
    by (simp add: CHARACTER_LIMIT_def)
  moreover have "CHARACTER_LIMIT + 25 = 50025" by (simp add: CHARACTER_LIMIT_def)
  ultimately show ?thesis using h by simp
qed

text \<open>
  Claim C6 as stated fails for the handler of \<open>af_get_taxonomy_concept\<close>: for a concept
  whose label has 50000 characters the formatted text exceeds the budget, and the text
  returned is cut to 50000 code units and does not end with the marker.
\<close>
theorem handler_text_cut_without_marker:
  "af_get_taxonomy_concept accepting_parser (taxonomy_upstream [long_item]) (lit ''long_id'')
     = [Inr (concept_settled (lit ''long_id'')
               (Inr [[long_item], [long_item], [long_item], [long_item]]))]
   \<and> CHARACTER_LIMIT < length (join_lines (concept_lines
         (concept_of long_item [long_item] [long_item] [long_item])))
   \<and> text_block (concept_settled (lit ''long_id'')
         (Inr [[long_item], [long_item], [long_item], [long_item]]))
       = lit ''## '' @ replicate 49997 97
   \<and> \<not> ends_with (text_block (concept_settled (lit ''long_id'')
         (Inr [[long_item], [long_item], [long_item], [long_item]]))) truncation_marker"
proof -
  let ?full = "join_lines (concept_lines (concept_of long_item [long_item] [long_item] [long_item]))"
  let ?res = "concept_settled (lit ''long_id'') (Inr [[long_item], [long_item], [long_item], [long_item]])"
  have a: "af_get_taxonomy_concept accepting_parser (taxonomy_upstream [long_item]) (lit ''long_id'')
     = [Inr ?res]"
    by (rule af_get_taxonomy_concept_upstream)
  have b: "CHARACTER_LIMIT < length ?full"
    unfolding long_text by (simp add: CHARACTER_LIMIT_def)
  have c: "text_block ?res = lit ''## '' @ replicate 49997 97"
    by (simp add: long_text CHARACTER_LIMIT_def)
  have "last (text_block ?res) = 97" unfolding c by simp
  then have d: "\<not> ends_with (text_block ?res) truncation_marker"
    using ends_with_last [of "text_block ?res" truncation_marker] last_truncation_marker
    by (auto simp: truncation_marker_def)
  from a b c d show ?thesis by blast
qed

lemma fan_out_outcomes:
  assumes "getConceptUrl parser concept_id = Inr conceptUrl"
    and "getRelationUrl parser concept_id (lit ''broader'') = Inr broaderUrl"
    and "getRelationUrl parser concept_id (lit ''narrower'') = Inr narrowerUrl"
    and "getRelationUrl parser concept_id (lit ''related'') = Inr relatedUrl"
    and "outcome \<in> set (af_get_taxonomy_concept parser net concept_id)"
  shows "\<exists>res. outcome = Inr res \<and>
     ((\<exists>conceptRes broaderRes narrowerRes relatedRes.
          fst (taxonomyFetch net conceptUrl) = Inr conceptRes
          \<and> fst (taxonomyFetch net broaderUrl) = Inr broaderRes
          \<and> fst (taxonomyFetch net narrowerUrl) = Inr narrowerRes
          \<and> fst (taxonomyFetch net relatedUrl) = Inr relatedRes
          \<and> ((\<exists>concept. structuredContent res = Some concept
                  \<and> broader concept = Some (map mapItem broaderRes)
                  \<and> narrower concept = Some (map mapItem narrowerRes)
                  \<and> related concept = Some (map mapItem relatedRes)
                  \<and> \<not> isError res)
               \<or> (conceptRes = [] \<and> res = not_found concept_id)))
      \<or> ((\<exists>err. Inl err \<in> {fst (taxonomyFetch net conceptUrl), fst (taxonomyFetch net broaderUrl),
                              fst (taxonomyFetch net narrowerUrl), fst (taxonomyFetch net relatedUrl)})
          \<and> structuredContent res = None
          \<and> (isError res \<or> res = not_found concept_id)))"
proof -
  let ?rs = "[fst (taxonomyFetch net conceptUrl), fst (taxonomyFetch net broaderUrl),
              fst (taxonomyFetch net narrowerUrl), fst (taxonomyFetch net relatedUrl)]"
  have h: "af_get_taxonomy_concept parser net concept_id =
     map (\<lambda>settled. Inr (concept_settled concept_id settled)) (Promise_all ?rs)"
    by (simp add: af_get_taxonomy_concept_def assms(1-4))
  from assms(5) obtain settled where s: "settled \<in> set (Promise_all ?rs)"
    and o: "outcome = Inr (concept_settled concept_id settled)"
    unfolding h by auto
  show ?thesis
  proof (cases "\<exists>err. Inl err \<in> set ?rs")
    case True
    then obtain e where "Inl e \<in> set ?rs" by blast
    from Promise_all_rejected [OF this s] obtain e' where e': "settled = Inl e'" by blast
    have rej: "\<exists>err. Inl err \<in> {fst (taxonomyFetch net conceptUrl), fst (taxonomyFetch net broaderUrl),
                              fst (taxonomyFetch net narrowerUrl), fst (taxonomyFetch net relatedUrl)}"
      using True by simp
    have "structuredContent (concept_settled concept_id settled) = None
          \<and> (isError (concept_settled concept_id settled)
              \<or> concept_settled concept_id settled = not_found concept_id)"
      unfolding e' by (rule concept_settled_rejected)
    with rej o show ?thesis by blast
  next
    case False
    obtain c where c: "fst (taxonomyFetch net conceptUrl) = Inr c"
      using False by (cases "fst (taxonomyFetch net conceptUrl)") auto
    obtain b where b: "fst (taxonomyFetch net broaderUrl) = Inr b"
      using False by (cases "fst (taxonomyFetch net broaderUrl)") auto
    obtain n where n: "fst (taxonomyFetch net narrowerUrl) = Inr n"
      using False by (cases "fst (taxonomyFetch net narrowerUrl)") auto
    obtain r where r: "fst (taxonomyFetch net relatedUrl) = Inr r"
      using False by (cases "fst (taxonomyFetch net relatedUrl)") auto
    have "settled = Inr [c, b, n, r]" using s unfolding c b n r by simp
    with o have o': "outcome = Inr (concept_settled concept_id (Inr [c, b, n, r]))" by simp
    show ?thesis
    proof (cases c)
      case Nil
      have "concept_settled concept_id (Inr [c, b, n, r]) = not_found concept_id"
        unfolding Nil by (rule concept_settled_empty)
      with Nil o' c b n r show ?thesis by blast
    next
      case (Cons item items)
      have "structuredContent (concept_settled concept_id (Inr [c, b, n, r])) = Some (concept_of item b n r)
            \<and> \<not> isError (concept_settled concept_id (Inr [c, b, n, r]))"
        unfolding Cons by (rule concept_settled_found)
      moreover have "broader (concept_of item b n r) = Some (map mapItem b)"
        "narrower (concept_of item b n r) = Some (map mapItem n)"
        "related (concept_of item b n r) = Some (map mapItem r)"
        by simp_all
      ultimately show ?thesis using o' c b n r by blast
    qed
  qed
qed

lemma Promise_all_nonempty: "Promise_all rs \<noteq> []"
  by (simp add: Promise_all_def)

lemma Promise_all_rejection:
  assumes "Inl e \<in> set rs"
  shows "Inl e \<in> set (Promise_all rs)"
proof -
  have m: "Inl e \<in> set (filter isl rs)" using assms by simp
  then have "filter isl rs \<noteq> []" by (cases "filter isl rs") simp_all
  then have eq: "Promise_all rs = map (\<lambda>r. Inl (projl r)) (filter isl rs)"
    by (simp add: Promise_all_def)
  define f where "f = (\<lambda>r :: js_error + 'a. (Inl (projl r) :: js_error + 'a list))"
  have "f (Inl e) \<in> f ` set (filter isl rs)" using m by (rule imageI)
  moreover have "f (Inl e) = Inl e" by (simp add: f_def)
  ultimately have "Inl e \<in> f ` set (filter isl rs)" by (simp only:)
  then show ?thesis unfolding eq f_def by (simp only: set_map)
qed

lemma af_get_taxonomy_concept_settles:
  assumes "getConceptUrl parser concept_id = Inr conceptUrl"
    and "getRelationUrl parser concept_id (lit ''broader'') = Inr broaderUrl"
    and "getRelationUrl parser concept_id (lit ''narrower'') = Inr narrowerUrl"
    and "getRelationUrl parser concept_id (lit ''related'') = Inr relatedUrl"
  shows "af_get_taxonomy_concept parser net concept_id =
     map (\<lambda>settled. Inr (concept_settled concept_id settled))
       (Promise_all [fst (taxonomyFetch net conceptUrl), fst (taxonomyFetch net broaderUrl),
                     fst (taxonomyFetch net narrowerUrl), fst (taxonomyFetch net relatedUrl)])"
  by (simp add: af_get_taxonomy_concept_def assms)

lemma concept_settled_Inl:
  "concept_settled concept_id (Inl err) =
     (if statusCode err = Some 404 then not_found concept_id
      else \<lparr>text_block = lit ''An error occurred: '' @ message err,
            structuredContent = None, isError = True\<rparr>)"
  by simp

lemma related_down_outcome:
  "af_get_taxonomy_concept accepting_parser related_down (lit ''i46j_HmG_v64'')
     = [Inr \<lparr>text_block = lit ''An error occurred: API request failed: 503 Service Unavailable'',
              structuredContent = None, isError = True\<rparr>]"
  by code_simp

lemma related_down_fetches:
  "fst (taxonomyFetch related_down
          (lit ''https://taxonomy.api.jobtechdev.se/v1/taxonomy/main/concepts?id=i46j_HmG_v64&include-deprecated=true''))
     = Inr [nurse_item]"
  "fst (taxonomyFetch related_down
          (lit ''https://taxonomy.api.jobtechdev.se/v1/taxonomy/main/concepts?related-ids=i46j_HmG_v64&relation=broader&include-deprecated=true''))
     = Inr [nurse_item]"
  "fst (taxonomyFetch related_down
          (lit ''https://taxonomy.api.jobtechdev.se/v1/taxonomy/main/concepts?related-ids=i46j_HmG_v64&relation=narrower&include-deprecated=true''))
     = Inr [nurse_item]"
  "fst (taxonomyFetch related_down
          (lit ''https://taxonomy.api.jobtechdev.se/v1/taxonomy/main/concepts?related-ids=i46j_HmG_v64&relation=related&include-deprecated=true''))
     = Inl (ApiError (lit ''API request failed: 503 Service Unavailable'') (Some 503)
             (Some (lit ''https://taxonomy.api.jobtechdev.se/v1/taxonomy/main/concepts?related-ids=i46j_HmG_v64&relation=related&include-deprecated=true'')))"
  by code_simp+

text \<open>
  Claim C7. With the four URLs built, the handler of \<open>af_get_taxonomy_concept\<close> always
  returns a result, and every result is of one of two kinds. Either all four requests
  succeeded, and the result carries the concept with all three relation lists (or, the
  concept list being empty, is the not-found answer); then it is the only outcome. Or one
  of the four requests failed, and the result has no structured content and is an error
  answer or the not-found answer; the answer for each failed request is a possible
  outcome: not found for the status code 404, and otherwise the error text with
  \<open>isError\<close>. No result is built from a part of the four.
\<close>
theorem fan_out_all_or_nothing:
  assumes "getConceptUrl parser concept_id = Inr conceptUrl"
    and "getRelationUrl parser concept_id (lit ''broader'') = Inr broaderUrl"
    and "getRelationUrl parser concept_id (lit ''narrower'') = Inr narrowerUrl"
    and "getRelationUrl parser concept_id (lit ''related'') = Inr relatedUrl"
  shows "af_get_taxonomy_concept parser net concept_id \<noteq> []
   \<and> (\<forall>outcome \<in> set (af_get_taxonomy_concept parser net concept_id).
        \<exists>res. outcome = Inr res \<and>
          ((\<exists>conceptRes broaderRes narrowerRes relatedRes.
              fst (taxonomyFetch net conceptUrl) = Inr conceptRes
              \<and> fst (taxonomyFetch net broaderUrl) = Inr broaderRes
              \<and> fst (taxonomyFetch net narrowerUrl) = Inr narrowerRes
              \<and> fst (taxonomyFetch net relatedUrl) = Inr relatedRes
              \<and> ((\<exists>concept. structuredContent res = Some concept
                      \<and> broader concept = Some (map mapItem broaderRes)
                      \<and> narrower concept = Some (map mapItem narrowerRes)
                      \<and> related concept = Some (map mapItem relatedRes)
                      \<and> \<not> isError res)
                   \<or> (conceptRes = [] \<and> res = not_found concept_id)))
           \<or> ((\<exists>err. Inl err \<in> {fst (taxonomyFetch net conceptUrl), fst (taxonomyFetch net broaderUrl),
                                   fst (taxonomyFetch net narrowerUrl), fst (taxonomyFetch net relatedUrl)})
               \<and> structuredContent res = None
               \<and> (isError res \<or> res = not_found concept_id))))
   \<and> (\<forall>conceptRes broaderRes narrowerRes relatedRes.
        fst (taxonomyFetch net conceptUrl) = Inr conceptRes
        \<and> fst (taxonomyFetch net broaderUrl) = Inr broaderRes
        \<and> fst (taxonomyFetch net narrowerUrl) = Inr narrowerRes
        \<and> fst (taxonomyFetch net relatedUrl) = Inr relatedRes
        \<longrightarrow> af_get_taxonomy_concept parser net concept_id
              = [Inr (concept_settled concept_id
                        (Inr [conceptRes, broaderRes, narrowerRes, relatedRes]))])
   \<and> (\<forall>err. Inl err \<in> {fst (taxonomyFetch net conceptUrl), fst (taxonomyFetch net broaderUrl),
                          fst (taxonomyFetch net narrowerUrl), fst (taxonomyFetch net relatedUrl)}
        \<longrightarrow> Inr (if statusCode err = Some 404 then not_found concept_id
                   else \<lparr>text_block = lit ''An error occurred: '' @ message err,
                         structuredContent = None, isError = True\<rparr>)
              \<in> set (af_get_taxonomy_concept parser net concept_id))"
proof -
  let ?rs = "[fst (taxonomyFetch net conceptUrl), fst (taxonomyFetch net broaderUrl),
              fst (taxonomyFetch net narrowerUrl), fst (taxonomyFetch net relatedUrl)]"
  note h = af_get_taxonomy_concept_settles [OF assms, of net]
  have a: "af_get_taxonomy_concept parser net concept_id \<noteq> []"
    unfolding h by (simp add: Promise_all_nonempty)
  have b: "\<forall>outcome \<in> set (af_get_taxonomy_concept parser net concept_id).
        \<exists>res. outcome = Inr res \<and>
          ((\<exists>conceptRes broaderRes narrowerRes relatedRes.
              fst (taxonomyFetch net conceptUrl) = Inr conceptRes
              \<and> fst (taxonomyFetch net broaderUrl) = Inr broaderRes
              \<and> fst (taxonomyFetch net narrowerUrl) = Inr narrowerRes
              \<and> fst (taxonomyFetch net relatedUrl) = Inr relatedRes
              \<and> ((\<exists>concept. structuredContent res = Some concept
                      \<and> broader concept = Some (map mapItem broaderRes)
                      \<and> narrower concept = Some (map mapItem narrowerRes)
                      \<and> related concept = Some (map mapItem relatedRes)
                      \<and> \<not> isError res)
                   \<or> (conceptRes = [] \<and> res = not_found concept_id)))
           \<or> ((\<exists>err. Inl err \<in> {fst (taxonomyFetch net conceptUrl), fst (taxonomyFetch net broaderUrl),
                                   fst (taxonomyFetch net narrowerUrl), fst (taxonomyFetch net relatedUrl)})
               \<and> structuredContent res = None
               \<and> (isError res \<or> res = not_found concept_id)))"
    using fan_out_outcomes [OF assms] by blast
  have c: "\<forall>conceptRes broaderRes narrowerRes relatedRes.
        fst (taxonomyFetch net conceptUrl) = Inr conceptRes
        \<and> fst (taxonomyFetch net broaderUrl) = Inr broaderRes
        \<and> fst (taxonomyFetch net narrowerUrl) = Inr narrowerRes
        \<and> fst (taxonomyFetch net relatedUrl) = Inr relatedRes
        \<longrightarrow> af_get_taxonomy_concept parser net concept_id
              = [Inr (concept_settled concept_id
                        (Inr [conceptRes, broaderRes, narrowerRes, relatedRes]))]"
    unfolding h by simp
  have d: "\<forall>err. Inl err \<in> {fst (taxonomyFetch net conceptUrl), fst (taxonomyFetch net broaderUrl),
                          fst (taxonomyFetch net narrowerUrl), fst (taxonomyFetch net relatedUrl)}
        \<longrightarrow> Inr (if statusCode err = Some 404 then not_found concept_id
                   else \<lparr>text_block = lit ''An error occurred: '' @ message err,
                         structuredContent = None, isError = True\<rparr>)
              \<in> set (af_get_taxonomy_concept parser net concept_id)"
  proof (intro allI impI)
    fix err
    assume "Inl err \<in> {fst (taxonomyFetch net conceptUrl), fst (taxonomyFetch net broaderUrl),
                          fst (taxonomyFetch net narrowerUrl), fst (taxonomyFetch net relatedUrl)}"
    then have "Inl err \<in> set ?rs" by simp
    then have "Inl err \<in> set (Promise_all ?rs)" by (rule Promise_all_rejection)
    then have "Inr (concept_settled concept_id (Inl err))
                 \<in> (\<lambda>settled. Inr (concept_settled concept_id settled)) ` set (Promise_all ?rs)"
      by (rule imageI)
    then show "Inr (if statusCode err = Some 404 then not_found concept_id
                   else \<lparr>text_block = lit ''An error occurred: '' @ message err,
                         structuredContent = None, isError = True\<rparr>)
              \<in> set (af_get_taxonomy_concept parser net concept_id)"
      unfolding h concept_settled_Inl by simp
  qed
  from a b c d show ?thesis by blast
qed

text \<open>
  An upstream on which three requests succeed and the request for the related concepts
  fails with 503: the one outcome is the error answer, without structured content. And
  an upstream that answers all four requests with one concept.
\<close>
theorem fan_out_all_or_nothing_witness:
  "af_get_taxonomy_concept accepting_parser related_down (lit ''i46j_HmG_v64'')
     = [Inr \<lparr>text_block = lit ''An error occurred: API request failed: 503 Service Unavailable'',
              structuredContent = None, isError = True\<rparr>]
   \<and> fst (taxonomyFetch related_down
          (lit ''https://taxonomy.api.jobtechdev.se/v1/taxonomy/main/concepts?id=i46j_HmG_v64&include-deprecated=true''))
       = Inr [nurse_item]
   \<and> Inl (ApiError (lit ''API request failed: 503 Service Unavailable'') (Some 503) (Some related_url))
       = fst (taxonomyFetch related_down related_url)
   \<and> Inr (if statusCode (ApiError (lit ''API request failed: 503 Service Unavailable'') (Some 503)
                           (Some related_url)) = Some 404
           then not_found (lit ''i46j_HmG_v64'')
           else \<lparr>text_block = lit ''An error occurred: ''
                     @ message (ApiError (lit ''API request failed: 503 Service Unavailable'')
                                  (Some 503) (Some related_url)),
                 structuredContent = None, isError = True\<rparr>)
       \<in> set (af_get_taxonomy_concept accepting_parser related_down (lit ''i46j_HmG_v64''))
   \<and> af_get_taxonomy_concept accepting_parser (taxonomy_upstream [nurse_item]) (lit ''i46j_HmG_v64'')
       = [Inr (concept_settled (lit ''i46j_HmG_v64'')
                 (Inr [[nurse_item], [nurse_item], [nurse_item], [nurse_item]]))]
   \<and> structuredContent (concept_settled (lit ''i46j_HmG_v64'')
          (Inr [[nurse_item], [nurse_item], [nurse_item], [nurse_item]]))
       = Some (concept_of nurse_item [nurse_item] [nurse_item] [nurse_item])"
proof -
  let ?e = "ApiError (lit ''API request failed: 503 Service Unavailable'') (Some 503) (Some related_url)"
  have r: "fst (taxonomyFetch related_down related_url) = Inl ?e"
    using related_down_fetches(4) by (simp add: related_url_def)
  note down = fan_out_all_or_nothing [OF example_concept_urls, of related_down]
  note up = fan_out_all_or_nothing [OF example_concept_urls, of "taxonomy_upstream [nurse_item]"]
  have m: "Inr (if statusCode ?e = Some 404
           then not_found (lit ''i46j_HmG_v64'')
           else \<lparr>text_block = lit ''An error occurred: '' @ message ?e,
                 structuredContent = None, isError = True\<rparr>)
       \<in> set (af_get_taxonomy_concept accepting_parser related_down (lit ''i46j_HmG_v64''))"
    using down r related_down_fetches(4) by (simp add: related_url_def)
  have a: "af_get_taxonomy_concept accepting_parser (taxonomy_upstream [nurse_item]) (lit ''i46j_HmG_v64'')
       = [Inr (concept_settled (lit ''i46j_HmG_v64'')
                 (Inr [[nurse_item], [nurse_item], [nurse_item], [nurse_item]]))]"
    using up by simp
  show ?thesis
    using related_down_outcome related_down_fetches(1) r m a by simp
qed

text \<open>
  Claim C10. When the handler of \<open>af_list_taxonomy_types\<close> returns a structured result,
  its \<open>count\<close> is the length of its \<open>concepts\<close>, and with \<open>include_deprecated\<close> false no
  concept in it has \<open>deprecated\<close> true.
\<close>
theorem list_count_and_active:
  assumes "af_list_taxonomy_types parser net type_name include_deprecated = Inr res"
    and "structuredContent res = Some content"
  shows "count content = length (concepts content)
     \<and> (\<not> include_deprecated \<longrightarrow> (\<forall>c \<in> set (concepts content). deprecated c \<noteq> Some True))"
  using assms
  by (auto simp: af_list_taxonomy_types_def active_concepts_def Let_def truthy_bool_def
      split: sum.splits if_splits)

text \<open>An upstream with one active and one deprecated concept.\<close>
theorem list_count_and_active_witness:
  "af_list_taxonomy_types accepting_parser (taxonomy_upstream [nurse_item, retired_item])
       (lit ''occupation-name'') False
     = Inr \<lparr>text_block =
               take CHARACTER_LIMIT
                 (list_header 1 (lit ''occupation-name'') @ concept_line (mapItem nurse_item)),
             structuredContent =
               Some \<lparr>list_type = lit ''occupation-name'', count = 1,
                     concepts = [mapItem nurse_item]\<rparr>,
             isError = False\<rparr>
   \<and> count \<lparr>list_type = lit ''occupation-name'', count = 1, concepts = [mapItem nurse_item]\<rparr>
       = length (concepts \<lparr>list_type = lit ''occupation-name'', count = 1,
                           concepts = [mapItem nurse_item]\<rparr>)
   \<and> deprecated (mapItem nurse_item) \<noteq> Some True"
proof -
  let ?c = "\<lparr>list_type = lit ''occupation-name'', count = 1, concepts = [mapItem nurse_item]\<rparr>"
  let ?r = "\<lparr>text_block =
               take CHARACTER_LIMIT
                 (list_header 1 (lit ''occupation-name'') @ concept_line (mapItem nurse_item)),
             structuredContent = Some ?c, isError = False\<rparr>"
  have a: "active_concepts False [mapItem nurse_item, mapItem retired_item] = [mapItem nurse_item]"
    by (simp add: active_concepts_def truthy_bool_def mapItem_def nurse_item_def retired_item_def)
  have h1: "af_list_taxonomy_types accepting_parser (taxonomy_upstream [nurse_item, retired_item])
       (lit ''occupation-name'') False = Inr ?r"
    by (simp add: af_list_taxonomy_types_upstream a)
  have h2: "structuredContent ?r = Some ?c" by simp
  from list_count_and_active [OF h1 h2] show ?thesis using h1 by simp
qed

end
